theory Spec2Isabelle
  imports Complex_Main
begin

section \<open>Token estimation\<close>

text \<open>
  The dispatcher \<^verbatim>\<open>llm_text_gen\<close> of
  \<^verbatim>\<open>backend/services/llm_providers/main_text_generation.py\<close> estimates tokens as
  \<^verbatim>\<open>int(len(prompt.split()) * 1.3)\<close>. \<^verbatim>\<open>str.split()\<close> with no argument cuts the
  text at runs of whitespace and drops empty pieces. Characters are the code points
  below 256; the whitespace among them is 9-13, 28-32, 133 and 160.
\<close>

definition isspace :: "char \<Rightarrow> bool" where
  "isspace c =
     (let n = (of_char c :: nat)
      in (9 \<le> n \<and> n \<le> 13) \<or> (28 \<le> n \<and> n \<le> 32) \<or> n = 133 \<or> n = 160)"

fun split_from :: "string \<Rightarrow> string \<Rightarrow> string list" where
  "split_from w [] = (if w = [] then [] else [w])"
| "split_from w (c # cs) =
     (if isspace c then (if w = [] then split_from [] cs else w # split_from [] cs)
      else split_from (w @ [c]) cs)"

definition str_split :: "string \<Rightarrow> string list" where
  "str_split s = split_from [] s"

text \<open>
  \<^verbatim>\<open>int(n * 1.3)\<close> multiplies in double precision and truncates. For a word count
  \<open>n\<close> below \<open>10^14\<close> the rounding error of the product is below \<open>0.1\<close>, while
  \<open>13 n / 10\<close> is either an integer (and the double nearest to 1.3 lies above 1.3) or
  at least \<open>0.1\<close> away from one, so the result is \<open>13 n div 10\<close>.
  \<^verbatim>\<open>int(t * 1.5)\<close> is exact in double precision: \<open>3 t div 2\<close>.
\<close>

definition estimate_tokens :: "string \<Rightarrow> int" where
  "estimate_tokens s = (int (length (str_split s)) * 13) div 10"

definition max_tokens :: int where
  "max_tokens = 4000"

definition estimated_output_tokens :: "int \<Rightarrow> int \<Rightarrow> int" where
  "estimated_output_tokens mt input_tokens =
     (if mt \<noteq> 0 then mt else (input_tokens * 3) div 2)"

definition estimated_total_tokens :: "string \<Rightarrow> int" where
  "estimated_total_tokens prompt =
     (let input_tokens = estimate_tokens prompt
      in input_tokens + estimated_output_tokens max_tokens input_tokens)"

text \<open>
  The worst case in the words of the specification: the input estimate plus the larger
  of the configured maximum output tokens and 1.5 times the input estimate.
\<close>

definition worst_case_total_spec :: "string \<Rightarrow> real" where
  "worst_case_total_spec prompt =
     real_of_int (estimate_tokens prompt)
       + max (real_of_int max_tokens) (1.5 * real_of_int (estimate_tokens prompt))"

section \<open>Data model\<close>

text \<open>
  Modelled from the spec: the enumeration \<^verbatim>\<open>APIProvider\<close> of the subscription models
  is not among the sources. Its members are those the dispatcher names, and their values
  are the provider names of the persisted columns, which are also the names in the
  dispatcher's column whitelist \<^verbatim>\<open>valid_providers\<close>.
\<close>

datatype APIProvider = GEMINI | OPENAI | ANTHROPIC | MISTRAL | OPENROUTER

fun provider_value :: "APIProvider \<Rightarrow> string" where
  "provider_value GEMINI = ''gemini''"
| "provider_value OPENAI = ''openai''"
| "provider_value ANTHROPIC = ''anthropic''"
| "provider_value MISTRAL = ''mistral''"
| "provider_value OPENROUTER = ''openrouter''"

definition valid_providers :: "string list" where
  "valid_providers = [''gemini'', ''openai'', ''anthropic'', ''mistral'', ''openrouter'']"

text \<open>
  Modelled from the spec: the model class \<^verbatim>\<open>UsageSummary\<close> is not among the sources.
  A row of \<^verbatim>\<open>usage_summaries\<close> has the columns \<^verbatim>\<open>{provider}_calls\<close>,
  \<^verbatim>\<open>{provider}_tokens\<close> and \<^verbatim>\<open>{provider}_cost\<close> for each provider, and the three
  totals. The columns of a provider are addressed by the provider name, as the source
  builds the column names from it; a column that is NULL reads as 0 everywhere in the
  source. The table is keyed by (user id, billing period), with at most one row for a
  key. Costs are taken as exact reals.
\<close>

record UsageSummary =
  provider_calls :: "string \<Rightarrow> int"
  provider_tokens :: "string \<Rightarrow> int"
  provider_cost :: "string \<Rightarrow> real"
  total_calls :: int
  total_tokens :: int
  total_cost :: real

type_synonym usage_summaries = "string \<times> string \<Rightarrow> UsageSummary option"

definition new_summary :: UsageSummary where
  "new_summary =
     \<lparr>provider_calls = (\<lambda>_. 0), provider_tokens = (\<lambda>_. 0), provider_cost = (\<lambda>_. 0),
      total_calls = 0, total_tokens = 0, total_cost = 0\<rparr>"

definition stored_calls :: "usage_summaries \<Rightarrow> string \<times> string \<Rightarrow> string \<Rightarrow> int" where
  "stored_calls db key name = (case db key of None \<Rightarrow> 0 | Some r \<Rightarrow> provider_calls r name)"

definition stored_tokens :: "usage_summaries \<Rightarrow> string \<times> string \<Rightarrow> string \<Rightarrow> int" where
  "stored_tokens db key name = (case db key of None \<Rightarrow> 0 | Some r \<Rightarrow> provider_tokens r name)"

definition stored_cost :: "usage_summaries \<Rightarrow> string \<times> string \<Rightarrow> string \<Rightarrow> real" where
  "stored_cost db key name = (case db key of None \<Rightarrow> 0 | Some r \<Rightarrow> provider_cost r name)"

definition stored_total_calls :: "usage_summaries \<Rightarrow> string \<times> string \<Rightarrow> int" where
  "stored_total_calls db key = (case db key of None \<Rightarrow> 0 | Some r \<Rightarrow> total_calls r)"

definition stored_total_tokens :: "usage_summaries \<Rightarrow> string \<times> string \<Rightarrow> int" where
  "stored_total_tokens db key = (case db key of None \<Rightarrow> 0 | Some r \<Rightarrow> total_tokens r)"

definition stored_total_cost :: "usage_summaries \<Rightarrow> string \<times> string \<Rightarrow> real" where
  "stored_total_cost db key = (case db key of None \<Rightarrow> 0 | Some r \<Rightarrow> total_cost r)"

definition set_calls :: "string \<Rightarrow> int \<Rightarrow> UsageSummary \<Rightarrow> UsageSummary" where
  "set_calls name v r = r\<lparr>provider_calls := (provider_calls r)(name := v)\<rparr>"

definition set_tokens :: "string \<Rightarrow> int \<Rightarrow> UsageSummary \<Rightarrow> UsageSummary" where
  "set_tokens name v r = r\<lparr>provider_tokens := (provider_tokens r)(name := v)\<rparr>"

definition add_cost :: "string \<Rightarrow> real \<Rightarrow> UsageSummary \<Rightarrow> UsageSummary" where
  "add_cost name c r =
     r\<lparr>provider_cost := (provider_cost r)(name := provider_cost r name + c),
       total_cost := total_cost r + c\<rparr>"

text \<open>
  What the dispatcher raises: \<^verbatim>\<open>RuntimeError(message)\<close>, or
  \<^verbatim>\<open>HTTPException(status_code, detail)\<close> with the detail dictionary of the denial.
\<close>

record error_detail =
  error :: string
  message :: string
  provider :: string
  usage_info :: "(string \<times> int) list"

datatype exn = RuntimeError string | HTTPException int error_detail

text \<open>
  The provider backends, named as the functions the dispatcher calls; the Hugging Face
  and OpenRouter ones are passed a model name. A backend returns text, a parsed JSON
  value (given by its truth value and its \<^verbatim>\<open>str()\<close> rendering) or \<^verbatim>\<open>None\<close>, or it
  raises after its own retries.
\<close>

datatype api_call =
    gemini_structured_json_response
  | gemini_text_response
  | huggingface_structured_json_response string
  | huggingface_text_response string
  | openrouter_structured_json_response string
  | openrouter_text_response string

datatype response = NoneResponse | Text string | Parsed bool string

fun truthy :: "response \<Rightarrow> bool" where
  "truthy NoneResponse = False"
| "truthy (Text s) = (s \<noteq> [])"
| "truthy (Parsed t s) = t"

fun str_of :: "response \<Rightarrow> string" where
  "str_of NoneResponse = ''None''"
| "str_of (Text s) = s"
| "str_of (Parsed t s) = s"

datatype backend_result = Raises | Returns response

type_synonym json_struct = "(string \<times> string) list option"

fun truthy_struct :: "json_struct \<Rightarrow> bool" where
  "truthy_struct None = False"
| "truthy_struct (Some d) = (d \<noteq> [])"

text \<open>
  The operations on storage and on the pricing service that can raise, one fault point
  for each; a run is given the set of the points that fail in it.
\<close>

datatype fault =
    SubscriptionCheckFault
  | UsageQueryFault
  | GetDbFault
  | BillingPeriodFault
  | UserLimitsFault
  | CountQueryFault
  | SelectQueryFault
  | OrmQueryFault
  | InsertFault
  | UpdateCallsFault
  | UpdateTokensFault
  | CalculateCostFault
  | UpdateCostFault
  | UpdateTotalsFault
  | CommitFault
  | VerifyFault
  | RollbackFault
  | CloseFault

text \<open>
  Everything the dispatcher reads from outside: the environment variables
  (\<^verbatim>\<open>GPT_PROVIDER\<close> lower-cased, \<^verbatim>\<open>OPENROUTER_MODEL\<close> with its default), the key
  manager (whether a key is present), the pricing service (\<^verbatim>\<open>check_usage_limits\<close>
  reads the table, so it is given the table), the backends, and the fault points that
  fail. \<^verbatim>\<open>get_current_billing_period\<close> stands for the period the source uses, the
  service's answer or else the current month. \<^verbatim>\<open>get_user_limits\<close> gives the
  \<^verbatim>\<open>'limits'\<close> dictionary of the plan, or nothing.
\<close>

record services =
  GPT_PROVIDER :: string
  OPENROUTER_MODEL :: string
  api_key_manager :: "string \<Rightarrow> bool"
  check_usage_limits ::
    "usage_summaries \<Rightarrow> string \<Rightarrow> APIProvider \<Rightarrow> int \<Rightarrow> string
       \<Rightarrow> bool \<times> string \<times> (string \<times> int) list option"
  get_current_billing_period :: "string \<Rightarrow> string"
  get_user_limits :: "string \<Rightarrow> (string \<Rightarrow> int option) option"
  calculate_api_cost :: "APIProvider \<Rightarrow> string \<Rightarrow> int \<Rightarrow> int \<Rightarrow> real"
  backend :: "api_call \<Rightarrow> string \<Rightarrow> json_struct \<Rightarrow> backend_result"
  faults :: "fault set"

datatype event =
    QuotaCheck string APIProvider int string
  | ProviderCall api_call

fun is_provider_call :: "event \<Rightarrow> bool" where
  "is_provider_call (ProviderCall c) = True"
| "is_provider_call (QuotaCheck u p n a) = False"

text \<open>
  The outcome of one request: what the caller gets (the response or the exception),
  the quota checks and provider invocations in order, the table afterwards, and the
  accounting errors that were caught and logged.
\<close>

record outcome =
  returned :: "exn + response"
  events :: "event list"
  summaries :: usage_summaries
  ledger_log :: "fault list"

definition raises :: "exn \<Rightarrow> event list \<Rightarrow> usage_summaries \<Rightarrow> outcome" where
  "raises e evs db = \<lparr>returned = Inl e, events = evs, summaries = db, ledger_log = []\<rparr>"

section \<open>Provider selection\<close>

definition available_providers :: "services \<Rightarrow> string list" where
  "available_providers S =
     (if api_key_manager S ''gemini'' then [''google''] else [])
     @ (if api_key_manager S ''hf_token'' then [''huggingface''] else [])
     @ (if api_key_manager S ''openrouter'' then [''openrouter''] else [])"

definition env_choice :: "services \<Rightarrow> string \<times> string" where
  "env_choice S =
     (let env_provider = GPT_PROVIDER S
      in if env_provider \<in> set [''gemini'', ''google'']
           then (''google'', ''gemini-2.0-flash-001'')
         else if env_provider \<in> set [''hf_response_api'', ''huggingface'', ''hf'']
           then (''huggingface'', ''openai/gpt-oss-120b:groq'')
         else if env_provider \<in> set [''openrouter'', ''or'']
           then (''openrouter'', OPENROUTER_MODEL S)
         else (''google'', ''gemini-2.0-flash-001''))"

text \<open>
  The cascade google, openrouter, huggingface over the providers with a key; the source
  has it twice, with two messages for the case that none has a key.
\<close>

definition auto_detect :: "services \<Rightarrow> string \<Rightarrow> exn + string \<times> string" where
  "auto_detect S msg =
     (let av = available_providers S
      in if ''google'' \<in> set av then Inr (''google'', ''gemini-2.0-flash-001'')
         else if ''openrouter'' \<in> set av then Inr (''openrouter'', OPENROUTER_MODEL S)
         else if ''huggingface'' \<in> set av
           then Inr (''huggingface'', ''openai/gpt-oss-120b:groq'')
         else Inl (RuntimeError msg))"

definition no_keys_message :: string where
  "no_keys_message =
     ''No LLM API keys configured. Configure GEMINI_API_KEY, OPENROUTER_API_KEY, or HF_TOKEN to enable AI responses.''"

definition select_provider :: "services \<Rightarrow> exn + string \<times> string" where
  "select_provider S =
     (if GPT_PROVIDER S = [] then auto_detect S no_keys_message
      else if fst (env_choice S) \<notin> set (available_providers S)
        then auto_detect S ''No supported providers available.''
      else Inr (env_choice S))"

definition provider_enum_of :: "string \<Rightarrow> (APIProvider \<times> string) option" where
  "provider_enum_of gpt_provider =
     (if gpt_provider = ''google'' then Some (GEMINI, ''gemini'')
      else if gpt_provider = ''huggingface'' then Some (MISTRAL, ''huggingface'')
      else if gpt_provider = ''openrouter'' then Some (OPENROUTER, ''openrouter'')
      else None)"

section \<open>Usage accounting\<close>

definition token_limit_of :: "(string \<Rightarrow> int option) option \<Rightarrow> string \<Rightarrow> int" where
  "token_limit_of limits provider_name =
     (case limits of
        None \<Rightarrow> 0
      | Some d \<Rightarrow> (case d (provider_name @ ''_tokens'') of None \<Rightarrow> 0 | Some v \<Rightarrow> v))"

text \<open>
  The safety check of both accounting paths: the new value of the token counter and
  the adjusted \<^verbatim>\<open>tokens_total\<close>.
\<close>

definition safety_check :: "int \<Rightarrow> int \<Rightarrow> int \<Rightarrow> int \<times> int" where
  "safety_check token_limit current_tokens_before tokens_total =
     (let projected_new_tokens = current_tokens_before + tokens_total
      in if token_limit > 0 \<and> projected_new_tokens > token_limit
         then (token_limit,
               (if token_limit - current_tokens_before < 0 then 0
                else token_limit - current_tokens_before))
         else (projected_new_tokens, tokens_total))"

text \<open>
  The accounting runs in one transaction. Its operations are listed in program order,
  each with its fault point and whether a failure there aborts the transaction (the
  handler rolls back) or is caught on the spot; the run collects the logged faults and
  tells whether the commit was reached.
\<close>

fun run_steps :: "fault set \<Rightarrow> (fault \<times> bool) list \<Rightarrow> fault list \<times> bool" where
  "run_steps F [] = ([], True)"
| "run_steps F ((f, aborts) # ps) =
     (if f \<in> F
      then (if aborts then ([f], False)
            else (let (l, c) = run_steps F ps in (f # l, c)))
      else run_steps F ps)"

definition tracks_tokens :: "APIProvider \<Rightarrow> bool" where
  "tracks_tokens provider_enum = (provider_enum \<in> set [GEMINI, OPENAI, ANTHROPIC, MISTRAL])"

definition tracks_tokens_fallback :: "APIProvider \<Rightarrow> bool" where
  "tracks_tokens_fallback provider_enum =
     (provider_enum \<in> set [GEMINI, OPENAI, ANTHROPIC, MISTRAL, OPENROUTER])"

text \<open>
  Accounting after the primary call. A failed COUNT query is caught and the row is taken
  as absent (the counters are then read as 0); a failed raw SELECT, or a provider name
  outside the whitelist, falls back to reading through the ORM, which gives the same
  values.

  The counters are written by UPDATE statements. When the row exists, the values read
  before are also assigned to the row object of the session (calls, and tokens for the
  providers of \<open>synchronised\<close>). At the flush before the commit the session writes an
  attribute of the row object only if the value assigned to it differs from the one it
  loaded; this write comes after the UPDATE statements and replaces what they wrote.
  The values read and the values loaded agree unless the COUNT query failed.
\<close>

definition synchronised :: "APIProvider \<Rightarrow> bool" where
  "synchronised provider_enum =
     (provider_enum \<in> set [GEMINI, OPENAI, ANTHROPIC, MISTRAL, OPENROUTER])"

definition flushed :: "int \<Rightarrow> int \<Rightarrow> int \<Rightarrow> int" where
  "flushed assigned loaded written = (if assigned \<noteq> loaded then assigned else written)"

definition current_before ::
  "services \<Rightarrow> usage_summaries \<Rightarrow> string \<times> string \<Rightarrow> string \<Rightarrow> int \<times> int" where
  "current_before S db key provider_name =
     (let record_count = (if CountQueryFault \<in> faults S then 0
                          else (case db key of None \<Rightarrow> 0 | Some r \<Rightarrow> (1::int)))
      in if record_count > 0
         then (stored_calls db key provider_name, stored_tokens db key provider_name)
         else (0, 0))"

text \<open>
  The values the primary path computes: \<^verbatim>\<open>new_calls\<close>, \<^verbatim>\<open>new_tokens\<close>, the
  \<^verbatim>\<open>tokens_total\<close> after the safety check, and \<^verbatim>\<open>cost_total\<close>.
\<close>

definition primary_values ::
  "services \<Rightarrow> string \<Rightarrow> APIProvider \<Rightarrow> string \<Rightarrow> string \<Rightarrow> response
     \<Rightarrow> usage_summaries \<Rightarrow> int \<times> int \<times> int \<times> real" where
  "primary_values S user_id provider_enum model prompt response_text db =
     (let tokens_input = estimate_tokens prompt;
          tokens_output = estimate_tokens (str_of response_text);
          tokens_total = tokens_input + tokens_output;
          current_period = get_current_billing_period S user_id;
          key = (user_id, current_period);
          provider_name = provider_value provider_enum;
          token_limit = token_limit_of (get_user_limits S user_id) provider_name;
          (current_calls_before, current_tokens_before) =
             current_before S db key provider_name;
          new_calls = current_calls_before + 1;
          (new_tokens, tokens_total') =
             (if tracks_tokens provider_enum
              then safety_check token_limit current_tokens_before tokens_total
              else (0, tokens_total));
          tracked_tokens_input = min tokens_input tokens_total';
          tracked_tokens_output = max (tokens_total' - tracked_tokens_input) 0;
          cost_total =
             (if CalculateCostFault \<in> faults S then 0
              else calculate_api_cost S provider_enum model
                     tracked_tokens_input tracked_tokens_output)
      in (new_calls, new_tokens, tokens_total', cost_total))"

definition record_usage ::
  "services \<Rightarrow> string \<Rightarrow> APIProvider \<Rightarrow> string \<Rightarrow> string \<Rightarrow> response
     \<Rightarrow> usage_summaries \<Rightarrow> usage_summaries" where
  "record_usage S user_id provider_enum model prompt response_text db =
     (let key = (user_id, get_current_billing_period S user_id);
          provider_name = provider_value provider_enum;
          (current_calls_before, current_tokens_before) =
             current_before S db key provider_name;
          (new_calls, new_tokens, tokens_total, cost_total) =
             primary_values S user_id provider_enum model prompt response_text db;
          summary = (case db key of None \<Rightarrow> new_summary | Some r \<Rightarrow> r);
          written_tokens = (if tracks_tokens provider_enum then new_tokens
                            else provider_tokens summary provider_name);
          stored_calls_after =
             (case db key of
                None \<Rightarrow> new_calls
              | Some r \<Rightarrow> flushed current_calls_before (provider_calls r provider_name)
                           new_calls);
          stored_tokens_after =
             (case db key of
                None \<Rightarrow> written_tokens
              | Some r \<Rightarrow>
                  if synchronised provider_enum
                  then flushed current_tokens_before (provider_tokens r provider_name)
                         written_tokens
                  else written_tokens);
          row1 = set_calls provider_name stored_calls_after summary;
          row2 = set_tokens provider_name stored_tokens_after row1;
          row3 = (if cost_total > 0 then add_cost provider_name cost_total row2 else row2);
          row4 = row3\<lparr>total_calls := total_calls summary + 1,
                       total_tokens := total_tokens summary + tokens_total\<rparr>
      in db(key \<mapsto> row4))"

definition primary_steps ::
  "services \<Rightarrow> string \<Rightarrow> APIProvider \<Rightarrow> string \<Rightarrow> string \<Rightarrow> response
     \<Rightarrow> usage_summaries \<Rightarrow> (fault \<times> bool) list" where
  "primary_steps S user_id provider_enum model prompt response_text db =
     (let F = faults S;
          key = (user_id, get_current_billing_period S user_id);
          provider_name = provider_value provider_enum;
          record_exists = (CountQueryFault \<notin> F \<and> db key \<noteq> None);
          sql_failed = (SelectQueryFault \<in> F \<or> provider_name \<notin> set valid_providers);
          (new_calls, new_tokens, tokens_total, cost_total) =
             primary_values S user_id provider_enum model prompt response_text db
      in [(BillingPeriodFault, True), (UserLimitsFault, True), (CountQueryFault, False)]
         @ (if record_exists then [(SelectQueryFault, False)] else [])
         @ (if record_exists \<and> sql_failed then [(OrmQueryFault, True)] else [])
         @ [(OrmQueryFault, True)]
         @ (if db key = None then [(InsertFault, True)] else [])
         @ [(UpdateCallsFault, True)]
         @ (if tracks_tokens provider_enum then [(UpdateTokensFault, True)] else [])
         @ [(CalculateCostFault, False)]
         @ (if cost_total > 0 then [(UpdateCostFault, True)] else [])
         @ [(UpdateTotalsFault, True), (UserLimitsFault, True), (CommitFault, True),
            (VerifyFault, False)])"

definition close_log :: "fault set \<Rightarrow> bool \<Rightarrow> fault list" where
  "close_log F committed =
     (if \<not> committed \<and> RollbackFault \<in> F then [RollbackFault] else [])
     @ (if CloseFault \<in> F then [CloseFault] else [])"

definition track_usage ::
  "services \<Rightarrow> string \<Rightarrow> APIProvider \<Rightarrow> string \<Rightarrow> string \<Rightarrow> response
     \<Rightarrow> usage_summaries \<Rightarrow> usage_summaries \<times> fault list" where
  "track_usage S user_id provider_enum model prompt response_text db =
     (if GetDbFault \<in> faults S then (db, [GetDbFault])
      else
        (let (log, committed) =
               run_steps (faults S)
                 (primary_steps S user_id provider_enum model prompt response_text db)
         in ((if committed
              then record_usage S user_id provider_enum model prompt response_text db
              else db),
             log @ close_log (faults S) committed)))"

text \<open>
  Accounting after the fallback call. There is no COUNT query; the counters are assigned
  on the session object and written at the commit, the cost by an UPDATE statement.
\<close>

definition fallback_values ::
  "services \<Rightarrow> string \<Rightarrow> APIProvider \<Rightarrow> string \<Rightarrow> string \<Rightarrow> response
     \<Rightarrow> usage_summaries \<Rightarrow> int \<times> int \<times> int \<times> real" where
  "fallback_values S user_id provider_enum fallback_model prompt response_text db =
     (let tokens_input = estimate_tokens prompt;
          tokens_output = estimate_tokens (str_of response_text);
          tokens_total = tokens_input + tokens_output;
          current_period = get_current_billing_period S user_id;
          key = (user_id, current_period);
          provider_name = provider_value provider_enum;
          token_limit = token_limit_of (get_user_limits S user_id) provider_name;
          current_calls_before = stored_calls db key provider_name;
          current_tokens_before = stored_tokens db key provider_name;
          new_calls = current_calls_before + 1;
          (new_tokens, tokens_total') =
             (if tracks_tokens_fallback provider_enum
              then safety_check token_limit current_tokens_before tokens_total
              else (0, tokens_total));
          tracked_tokens_input = min tokens_input tokens_total';
          tracked_tokens_output = max (tokens_total' - tracked_tokens_input) 0;
          cost_total =
             (if CalculateCostFault \<in> faults S then 0
              else calculate_api_cost S provider_enum fallback_model
                     tracked_tokens_input tracked_tokens_output)
      in (new_calls, new_tokens, tokens_total', cost_total))"

definition record_fallback_usage ::
  "services \<Rightarrow> string \<Rightarrow> APIProvider \<Rightarrow> string \<Rightarrow> string \<Rightarrow> response
     \<Rightarrow> usage_summaries \<Rightarrow> usage_summaries" where
  "record_fallback_usage S user_id provider_enum fallback_model prompt response_text db =
     (let key = (user_id, get_current_billing_period S user_id);
          provider_name = provider_value provider_enum;
          (new_calls, new_tokens, tokens_total, cost_total) =
             fallback_values S user_id provider_enum fallback_model prompt response_text db;
          summary = (case db key of None \<Rightarrow> new_summary | Some r \<Rightarrow> r);
          row1 = set_calls provider_name new_calls summary;
          row2 = (if tracks_tokens_fallback provider_enum
                  then set_tokens provider_name new_tokens row1 else row1);
          row3 = (if cost_total > 0 then add_cost provider_name cost_total row2 else row2);
          row4 = row3\<lparr>total_calls := total_calls summary + 1,
                       total_tokens := total_tokens summary + tokens_total\<rparr>
      in db(key \<mapsto> row4))"

definition fallback_steps ::
  "services \<Rightarrow> string \<Rightarrow> APIProvider \<Rightarrow> string \<Rightarrow> string \<Rightarrow> response
     \<Rightarrow> usage_summaries \<Rightarrow> (fault \<times> bool) list" where
  "fallback_steps S user_id provider_enum fallback_model prompt response_text db =
     (let F = faults S;
          key = (user_id, get_current_billing_period S user_id);
          provider_name = provider_value provider_enum;
          sql_failed = (SelectQueryFault \<in> F \<or> provider_name \<notin> set valid_providers);
          (new_calls, new_tokens, tokens_total, cost_total) =
             fallback_values S user_id provider_enum fallback_model prompt response_text db
      in [(BillingPeriodFault, True), (UserLimitsFault, True), (SelectQueryFault, False)]
         @ (if sql_failed then [(OrmQueryFault, True)] else [])
         @ [(OrmQueryFault, True)]
         @ (if db key = None then [(InsertFault, True)] else [])
         @ [(CalculateCostFault, False)]
         @ (if cost_total > 0 then [(UpdateCostFault, True)] else [])
         @ [(CommitFault, True)])"

definition track_fallback_usage ::
  "services \<Rightarrow> string \<Rightarrow> APIProvider \<Rightarrow> string \<Rightarrow> string \<Rightarrow> response
     \<Rightarrow> usage_summaries \<Rightarrow> usage_summaries \<times> fault list" where
  "track_fallback_usage S user_id provider_enum fallback_model prompt response_text db =
     (if GetDbFault \<in> faults S then (db, [GetDbFault])
      else
        (let (log, committed) =
               run_steps (faults S)
                 (fallback_steps S user_id provider_enum fallback_model prompt
                    response_text db)
         in ((if committed
              then record_fallback_usage S user_id provider_enum fallback_model prompt
                     response_text db
              else db),
             log @ close_log (faults S) committed)))"

section \<open>Dispatch and fallback\<close>

definition primary_call :: "string \<Rightarrow> bool \<Rightarrow> string \<Rightarrow> api_call option" where
  "primary_call gpt_provider structured model =
     (if gpt_provider = ''google''
        then Some (if structured then gemini_structured_json_response
                   else gemini_text_response)
      else if gpt_provider = ''huggingface''
        then Some (if structured then huggingface_structured_json_response model
                   else huggingface_text_response model)
      else if gpt_provider = ''openrouter''
        then Some (if structured then openrouter_structured_json_response model
                   else openrouter_text_response model)
      else None)"

definition fallback_providers :: "services \<Rightarrow> string \<Rightarrow> string list" where
  "fallback_providers S gpt_provider =
     filter (\<lambda>p. p \<in> set (available_providers S) \<and> p \<noteq> gpt_provider)
       [''google'', ''openrouter'', ''huggingface'']"

text \<open>
  The enum member, the name for the logs and the model of the fallback provider. The
  last case keeps the member of the failed provider, as the source does when no branch
  matches; the names in \<open>fallback_providers\<close> never reach it.
\<close>

definition fallback_mapping ::
  "services \<Rightarrow> string \<Rightarrow> APIProvider \<times> string \<Rightarrow> APIProvider \<times> string \<times> string" where
  "fallback_mapping S fallback_provider previous =
     (if fallback_provider = ''google'' then (GEMINI, ''gemini'', ''gemini-2.0-flash-lite'')
      else if fallback_provider = ''openrouter''
        then (OPENROUTER, ''openrouter'', OPENROUTER_MODEL S)
      else if fallback_provider = ''huggingface''
        then (MISTRAL, ''huggingface'', ''openai/gpt-oss-120b:groq'')
      else (fst previous, snd previous, []))"

definition fallback_call :: "string \<Rightarrow> bool \<Rightarrow> string \<Rightarrow> api_call option" where
  "fallback_call fallback_provider structured fallback_model =
     (if fallback_provider = ''google''
        then Some (if structured then gemini_structured_json_response
                   else gemini_text_response)
      else if fallback_provider = ''openrouter''
        then Some (if structured then openrouter_structured_json_response fallback_model
                   else openrouter_text_response fallback_model)
      else if fallback_provider = ''huggingface''
        then Some (if structured
                   then huggingface_structured_json_response ''openai/gpt-oss-120b:groq''
                   else huggingface_text_response ''openai/gpt-oss-120b:groq'')
      else None)"

definition all_failed :: exn where
  "all_failed = RuntimeError ''All LLM providers failed to generate a response.''"

definition fallback_attempt ::
  "services \<Rightarrow> string \<Rightarrow> json_struct \<Rightarrow> string \<Rightarrow> string \<Rightarrow> APIProvider \<times> string
     \<Rightarrow> event list \<Rightarrow> usage_summaries \<Rightarrow> outcome" where
  "fallback_attempt S prompt json_struct user_id gpt_provider previous evs db =
     (case fallback_providers S gpt_provider of
        [] \<Rightarrow> raises all_failed evs db
      | fallback_provider # others \<Rightarrow>
          (let (provider_enum, actual_provider_name, fallback_model) =
                 fallback_mapping S fallback_provider previous
           in case fallback_call fallback_provider (truthy_struct json_struct)
                     fallback_model of
                None \<Rightarrow>
                  \<lparr>returned = Inr NoneResponse, events = evs, summaries = db,
                   ledger_log = []\<rparr>
              | Some call \<Rightarrow>
                  (case backend S call prompt json_struct of
                     Raises \<Rightarrow> raises all_failed (evs @ [ProviderCall call]) db
                   | Returns response_text \<Rightarrow>
                       if truthy response_text
                       then (let (db', log) =
                                   track_fallback_usage S user_id provider_enum
                                     fallback_model prompt response_text db
                             in \<lparr>returned = Inr response_text,
                                 events = evs @ [ProviderCall call],
                                 summaries = db', ledger_log = log\<rparr>)
                       else \<lparr>returned = Inr response_text,
                             events = evs @ [ProviderCall call],
                             summaries = db, ledger_log = []\<rparr>)))"

definition dispatch ::
  "services \<Rightarrow> string \<Rightarrow> json_struct \<Rightarrow> string \<Rightarrow> string \<Rightarrow> string
     \<Rightarrow> APIProvider \<times> string \<Rightarrow> event list \<Rightarrow> usage_summaries \<Rightarrow> outcome" where
  "dispatch S prompt json_struct user_id gpt_provider model previous evs db =
     (case primary_call gpt_provider (truthy_struct json_struct) model of
        None \<Rightarrow> fallback_attempt S prompt json_struct user_id gpt_provider previous evs db
      | Some call \<Rightarrow>
          (case backend S call prompt json_struct of
             Raises \<Rightarrow>
               fallback_attempt S prompt json_struct user_id gpt_provider previous
                 (evs @ [ProviderCall call]) db
           | Returns response_text \<Rightarrow>
               if truthy response_text
               then (let (db', log) =
                           track_usage S user_id (fst previous) model prompt
                             response_text db
                     in \<lparr>returned = Inr response_text,
                         events = evs @ [ProviderCall call],
                         summaries = db', ledger_log = log\<rparr>)
               else \<lparr>returned = Inr response_text, events = evs @ [ProviderCall call],
                     summaries = db, ledger_log = []\<rparr>))"

section \<open>The entry point\<close>

definition user_id_required :: exn where
  "user_id_required =
     RuntimeError ''user_id is required for subscription checking. Please provide Clerk user ID.''"

text \<open>
  The subscription check, then the dispatch. A failure of the check other than the
  denial, or of the reading of the current usage after it, is raised as a
  \<^verbatim>\<open>RuntimeError\<close> whose message starts as below. The system prompt and the
  sampling parameters are handed to the backends as they are and decide nothing in the
  dispatcher; they are left out.
\<close>

definition subscription_check ::
  "services \<Rightarrow> string \<Rightarrow> json_struct \<Rightarrow> string \<Rightarrow> string \<Rightarrow> string
     \<Rightarrow> APIProvider \<times> string \<Rightarrow> usage_summaries \<Rightarrow> outcome" where
  "subscription_check S prompt json_struct user_id gpt_provider model mapped db =
     (if SubscriptionCheckFault \<in> faults S
      then raises (RuntimeError ''Subscription check failed'') [] db
      else
        (let (provider_enum, actual_provider_name) = mapped;
             tokens_requested = estimated_total_tokens prompt;
             (can_proceed, msg, usage) =
                check_usage_limits S db user_id provider_enum tokens_requested
                  actual_provider_name;
             evs = [QuotaCheck user_id provider_enum tokens_requested actual_provider_name]
         in if \<not> can_proceed
            then raises
                   (HTTPException 429
                      \<lparr>error = msg, message = msg,
                       provider = (if actual_provider_name \<noteq> [] then actual_provider_name
                                   else provider_value provider_enum),
                       usage_info = (case usage of None \<Rightarrow> [] | Some u \<Rightarrow> u)\<rparr>)
                   evs db
            else if UsageQueryFault \<in> faults S
            then raises (RuntimeError ''Subscription check failed'') evs db
            else dispatch S prompt json_struct user_id gpt_provider model mapped evs db))"

definition llm_text_gen ::
  "services \<Rightarrow> string \<Rightarrow> json_struct \<Rightarrow> string option \<Rightarrow> usage_summaries \<Rightarrow> outcome" where
  "llm_text_gen S prompt json_struct user_id db =
     (case select_provider S of
        Inl e \<Rightarrow> raises e [] db
      | Inr (gpt_provider, model) \<Rightarrow>
          (case provider_enum_of gpt_provider of
             None \<Rightarrow>
               raises (RuntimeError (''Unknown provider '' @ gpt_provider
                                      @ '' for subscription checking'')) [] db
           | Some mapped \<Rightarrow>
               (case user_id of
                  None \<Rightarrow> raises user_id_required [] db
                | Some uid \<Rightarrow>
                    if uid = [] then raises user_id_required [] db
                    else subscription_check S prompt json_struct uid gpt_provider model
                           mapped db)))"

text \<open>
  A sequence of requests, each with its own surroundings, run one after the other on
  the table.
\<close>

fun after_requests ::
  "(services \<times> string \<times> json_struct \<times> string option) list \<Rightarrow> usage_summaries
     \<Rightarrow> usage_summaries" where
  "after_requests [] db = db"
| "after_requests ((S, prompt, json_struct, user_id) # rs) db =
     after_requests rs (summaries (llm_text_gen S prompt json_struct user_id db))"

definition call_limit_of :: "(string \<Rightarrow> int option) option \<Rightarrow> string \<Rightarrow> int" where
  "call_limit_of limits provider_name =
     (case limits of
        None \<Rightarrow> 0
      | Some d \<Rightarrow> (case d (provider_name @ ''_calls'') of None \<Rightarrow> 0 | Some v \<Rightarrow> v))"

text \<open>
  Modelled from the spec: \<^verbatim>\<open>PricingService.check_usage_limits\<close> is not among the
  sources. The specification of the quota guard: the request is denied if the requested
  total would exceed the token ceiling of the provider (a ceiling of 0 is unlimited) or
  the next call would exceed its call ceiling; the denial carries a message and the
  current usage and ceiling. The counters are those of the row of the user and the
  current period.
\<close>

definition check_usage_limits_spec ::
  "(string \<Rightarrow> (string \<Rightarrow> int option) option) \<Rightarrow> (string \<Rightarrow> string) \<Rightarrow> usage_summaries
     \<Rightarrow> string \<Rightarrow> APIProvider \<Rightarrow> int \<Rightarrow> string
     \<Rightarrow> bool \<times> string \<times> (string \<times> int) list option" where
  "check_usage_limits_spec limits period db user_id provider_enum tokens_requested
     actual_provider_name =
     (let key = (user_id, period user_id);
          name = provider_value provider_enum;
          calls = stored_calls db key name;
          tokens = stored_tokens db key name;
          call_limit = call_limit_of (limits user_id) name;
          token_limit = token_limit_of (limits user_id) name;
          usage = [(''current_calls'', calls), (''call_limit'', call_limit),
                   (''current_tokens'', tokens), (''token_limit'', token_limit)]
      in if call_limit > 0 \<and> calls + 1 > call_limit
           then (False, ''API call limit reached for '' @ actual_provider_name, Some usage)
         else if token_limit > 0 \<and> tokens + tokens_requested > token_limit
           then (False, ''Token limit would be exceeded for '' @ actual_provider_name,
                 Some usage)
         else (True, ''Within limits'', Some usage))"

section \<open>Notions used in the properties\<close>

text \<open>
  The two accounting paths under one name, the providers whose token counter each path
  writes, and the condition that the accounting of a call read the stored counters and
  reached its commit.
\<close>

definition track ::
  "bool \<Rightarrow> services \<Rightarrow> string \<Rightarrow> APIProvider \<Rightarrow> string \<Rightarrow> string \<Rightarrow> response
     \<Rightarrow> usage_summaries \<Rightarrow> usage_summaries \<times> fault list" where
  "track fallback S user_id provider_enum model prompt response_text db =
     (if fallback
      then track_fallback_usage S user_id provider_enum model prompt response_text db
      else track_usage S user_id provider_enum model prompt response_text db)"

definition token_tracked :: "bool \<Rightarrow> APIProvider \<Rightarrow> bool" where
  "token_tracked fallback provider_enum =
     (if fallback then tracks_tokens_fallback provider_enum
      else tracks_tokens provider_enum)"

definition recorded ::
  "bool \<Rightarrow> services \<Rightarrow> string \<Rightarrow> APIProvider \<Rightarrow> string \<Rightarrow> string \<Rightarrow> response
     \<Rightarrow> usage_summaries \<Rightarrow> bool" where
  "recorded fallback S user_id provider_enum model prompt response_text db =
     (GetDbFault \<notin> faults S \<and> (fallback \<or> CountQueryFault \<notin> faults S)
      \<and> snd (run_steps (faults S)
                (if fallback
                 then fallback_steps S user_id provider_enum model prompt response_text db
                 else primary_steps S user_id provider_enum model prompt response_text db)))"

text \<open>
  A request that passes provider selection, has a user id and is admitted by the
  subscription check: the selected provider and model, and its enum member and log name.
\<close>

definition admitted ::
  "services \<Rightarrow> string \<Rightarrow> string \<Rightarrow> usage_summaries \<Rightarrow> string \<Rightarrow> string
     \<Rightarrow> APIProvider \<times> string \<Rightarrow> bool" where
  "admitted S prompt uid db gpt_provider model mapped =
     (select_provider S = Inr (gpt_provider, model)
      \<and> provider_enum_of gpt_provider = Some mapped
      \<and> uid \<noteq> []
      \<and> SubscriptionCheckFault \<notin> faults S
      \<and> UsageQueryFault \<notin> faults S
      \<and> fst (check_usage_limits S db uid (fst mapped) (estimated_total_tokens prompt)
                (snd mapped)))"

text \<open>
  Every stored token counter whose provider has a ceiling (above 0) in the plan of the
  row's user is at most that ceiling.
\<close>

definition within_ceilings ::
  "(string \<Rightarrow> (string \<Rightarrow> int option) option) \<Rightarrow> usage_summaries \<Rightarrow> bool" where
  "within_ceilings L db =
     (\<forall>user period name.
        0 < token_limit_of (L user) name
          \<longrightarrow> stored_tokens db (user, period) name \<le> token_limit_of (L user) name)"



definition provider_calls_of :: "event list \<Rightarrow> event list" where
  "provider_calls_of evs = filter is_provider_call evs"

section \<open>Example surroundings\<close>

text \<open>
  Concrete surroundings on which the properties are exercised: every provider has a key,
  the plan caps \<^verbatim>\<open>gemini_tokens\<close>, \<^verbatim>\<open>mistral_tokens\<close> and \<^verbatim>\<open>openrouter_tokens\<close>
  at 1000, a token costs a thousandth, and the subscription check lets every request
  pass. The provider of \<^verbatim>\<open>GPT_PROVIDER\<close>, the backends and the failing fault points
  are chosen per example.
\<close>

definition example_limits :: "string \<Rightarrow> (string \<Rightarrow> int option) option" where
  "example_limits user =
     Some (\<lambda>k. if k \<in> set [''gemini_tokens'', ''mistral_tokens'', ''openrouter_tokens'']
               then Some 1000 else None)"

definition example_services ::
  "string \<Rightarrow> (api_call \<Rightarrow> backend_result) \<Rightarrow> fault set \<Rightarrow> services" where
  "example_services env_provider back F =
     \<lparr>GPT_PROVIDER = env_provider, OPENROUTER_MODEL = ''openai/gpt-4-turbo'',
      api_key_manager = (\<lambda>k. True),
      check_usage_limits = (\<lambda>db u p n a. (True, ''OK'', None)),
      get_current_billing_period = (\<lambda>u. ''2026-11''),
      get_user_limits = example_limits,
      calculate_api_cost = (\<lambda>p m i out. real_of_int (i + out) / 1000),
      backend = (\<lambda>c p j. back c),
      faults = F\<rparr>"

text \<open>A table with one row, on which \<open>name\<close> has used \<open>n\<close> tokens in \<open>c\<close> calls.\<close>

definition example_table :: "string \<Rightarrow> int \<Rightarrow> int \<Rightarrow> usage_summaries" where
  "example_table name c n =
     [(''u1'', ''2026-11'') \<mapsto>
        new_summary\<lparr>provider_calls := (\<lambda>x. if x = name then c else 0),
                     provider_tokens := (\<lambda>x. if x = name then n else 0),
                     total_calls := c, total_tokens := n\<rparr>]"

text \<open>A response of 75 words, estimated at 97 tokens.\<close>

definition long_response :: response where
  "long_response = Text (concat (replicate 75 ''a ''))"

text \<open>Backends of which only the one of the given provider answers.\<close>

fun call_provider :: "api_call \<Rightarrow> string" where
  "call_provider gemini_structured_json_response = ''google''"
| "call_provider gemini_text_response = ''google''"
| "call_provider (huggingface_structured_json_response model) = ''huggingface''"
| "call_provider (huggingface_text_response model) = ''huggingface''"
| "call_provider (openrouter_structured_json_response model) = ''openrouter''"
| "call_provider (openrouter_text_response model) = ''openrouter''"

definition only_answers :: "string \<Rightarrow> response \<Rightarrow> api_call \<Rightarrow> backend_result" where
  "only_answers name r c = (if call_provider c = name then Returns r else Raises)"

text \<open>The example surroundings with the quota guard of the specification.\<close>

definition guarded_services :: services where
  "guarded_services =
     (example_services ''google'' (\<lambda>c. Returns (Text ''hello'')) {})
       \<lparr>check_usage_limits := check_usage_limits_spec example_limits (\<lambda>u. ''2026-11'')\<rparr>"

text \<open>
  A plan that caps \<^verbatim>\<open>gemini_tokens\<close> at 8000, and the example surroundings under it
  with the quota guard of the specification.
\<close>

definition roomy_limits :: "string \<Rightarrow> (string \<Rightarrow> int option) option" where
  "roomy_limits user = Some (\<lambda>k. if k = ''gemini_tokens'' then Some 8000 else None)"

definition roomy_services :: services where
  "roomy_services =
     (example_services ''google'' (\<lambda>c. Returns (Text ''hello'')) {})
       \<lparr>check_usage_limits := check_usage_limits_spec roomy_limits (\<lambda>u. ''2026-11''),
        get_user_limits := roomy_limits\<rparr>"

section \<open>Properties\<close>

subsection \<open>Auxiliary facts\<close>

lemma split_from_word_space:
  "split_from [] (CHR ''a'' # CHR '' '' # cs) = ''a'' # split_from [] cs"
  by (simp add: isspace_def)

lemma str_split_replicate: "length (str_split (concat (replicate n ''a ''))) = n"
  unfolding str_split_def
  by (induction n) (simp_all add: isspace_def)

lemma estimate_tokens_replicate:
  "estimate_tokens (concat (replicate n ''a '')) = (int n * 13) div 10"
  by (simp add: estimate_tokens_def str_split_replicate)

lemma safety_check_le: "0 < l \<Longrightarrow> fst (safety_check l c t) \<le> l"
  by (simp add: safety_check_def Let_def)

lemma safety_check_clamped:
  "0 < l \<Longrightarrow> l < c + t \<Longrightarrow> safety_check l c t = (l, max (l - c) 0)"
  by (simp add: safety_check_def Let_def max_def)

lemma safety_check_unclamped:
  "\<not> (0 < l \<and> l < c + t) \<Longrightarrow> safety_check l c t = (c + t, t)"
  by (auto simp add: safety_check_def Let_def)

lemma provider_value_valid: "provider_value p \<in> set valid_providers"
  by (cases p) (simp_all add: valid_providers_def)


lemma run_steps_log_nonempty:
  "\<not> snd (run_steps F ps) \<Longrightarrow> fst (run_steps F ps) \<noteq> []"
  by (induction ps) (auto split: prod.splits if_splits)

lemma run_steps_no_faults: "run_steps {} ps = ([], True)"
  by (induction ps) auto

lemma record_usage_counters:
  "stored_calls (record_usage S u pe m p r db) k n =
     (if k = (u, get_current_billing_period S u) \<and> n = provider_value pe
      then (case db k of
              None \<Rightarrow> fst (primary_values S u pe m p r db)
            | Some row \<Rightarrow>
                flushed (fst (current_before S db k n)) (provider_calls row n)
                  (fst (primary_values S u pe m p r db)))
      else stored_calls db k n)"
  "stored_tokens (record_usage S u pe m p r db) k n =
     (if k = (u, get_current_billing_period S u) \<and> n = provider_value pe
      then (case db k of
              None \<Rightarrow> (if tracks_tokens pe then fst (snd (primary_values S u pe m p r db))
                        else 0)
            | Some row \<Rightarrow>
                (if synchronised pe
                 then flushed (snd (current_before S db k n)) (provider_tokens row n)
                        (if tracks_tokens pe then fst (snd (primary_values S u pe m p r db))
                         else provider_tokens row n)
                 else (if tracks_tokens pe then fst (snd (primary_values S u pe m p r db))
                       else provider_tokens row n)))
      else stored_tokens db k n)"
  by (auto simp add: record_usage_def stored_calls_def stored_tokens_def Let_def
      set_calls_def set_tokens_def add_cost_def new_summary_def case_prod_beta
      split: option.splits)

lemma current_before_read:
  "CountQueryFault \<notin> faults S \<Longrightarrow>
   current_before S db key name = (stored_calls db key name, stored_tokens db key name)"
  by (simp add: current_before_def stored_calls_def stored_tokens_def split: option.splits)

lemma current_before_tokens:
  "snd (current_before S db key name) = stored_tokens db key name
   \<or> snd (current_before S db key name) = 0"
  by (simp add: current_before_def Let_def)

lemma stored_tokens_record_usage:
  "CountQueryFault \<notin> faults S \<Longrightarrow>
   stored_tokens (record_usage S u pe m p r db) k n =
     (if k = (u, get_current_billing_period S u) \<and> n = provider_value pe \<and> tracks_tokens pe
      then fst (snd (primary_values S u pe m p r db))
      else stored_tokens db k n)"
  unfolding record_usage_counters
  by (auto simp add: current_before_read flushed_def stored_tokens_def split: option.splits)

lemma stored_calls_record_usage:
  "CountQueryFault \<notin> faults S \<Longrightarrow>
   stored_calls (record_usage S u pe m p r db) k n =
     (if k = (u, get_current_billing_period S u) \<and> n = provider_value pe
      then fst (primary_values S u pe m p r db)
      else stored_calls db k n)"
  unfolding record_usage_counters
  by (auto simp add: current_before_read flushed_def stored_calls_def split: option.splits)

lemma stored_cost_record_usage:
  "stored_cost (record_usage S u pe m p r db) k n =
     (if k = (u, get_current_billing_period S u) \<and> n = provider_value pe
         \<and> 0 < snd (snd (snd (primary_values S u pe m p r db)))
      then stored_cost db k n + snd (snd (snd (primary_values S u pe m p r db)))
      else stored_cost db k n)"
  by (auto simp add: record_usage_def stored_cost_def Let_def set_calls_def set_tokens_def
      add_cost_def new_summary_def split: prod.splits option.splits)

lemma stored_total_calls_record_usage:
  "stored_total_calls (record_usage S u pe m p r db) k =
     (if k = (u, get_current_billing_period S u) then stored_total_calls db k + 1
      else stored_total_calls db k)"
  by (auto simp add: record_usage_def stored_total_calls_def Let_def set_calls_def set_tokens_def
      add_cost_def new_summary_def split: prod.splits option.splits)

lemma stored_total_tokens_record_usage:
  "stored_total_tokens (record_usage S u pe m p r db) k =
     (if k = (u, get_current_billing_period S u)
      then stored_total_tokens db k + fst (snd (snd (primary_values S u pe m p r db)))
      else stored_total_tokens db k)"
  by (auto simp add: record_usage_def stored_total_tokens_def Let_def set_calls_def set_tokens_def
      add_cost_def new_summary_def split: prod.splits option.splits)

lemma stored_tokens_record_fallback_usage:
  "stored_tokens (record_fallback_usage S u pe m p r db) k n =
     (if k = (u, get_current_billing_period S u) \<and> n = provider_value pe \<and> tracks_tokens_fallback pe
      then fst (snd (fallback_values S u pe m p r db))
      else stored_tokens db k n)"
  by (auto simp add: record_fallback_usage_def stored_tokens_def Let_def set_calls_def set_tokens_def
      add_cost_def new_summary_def split: prod.splits option.splits)

lemma stored_calls_record_fallback_usage:
  "stored_calls (record_fallback_usage S u pe m p r db) k n =
     (if k = (u, get_current_billing_period S u) \<and> n = provider_value pe
      then fst (fallback_values S u pe m p r db)
      else stored_calls db k n)"
  by (auto simp add: record_fallback_usage_def stored_calls_def Let_def set_calls_def set_tokens_def
      add_cost_def new_summary_def split: prod.splits option.splits)

lemma stored_cost_record_fallback_usage:
  "stored_cost (record_fallback_usage S u pe m p r db) k n =
     (if k = (u, get_current_billing_period S u) \<and> n = provider_value pe
         \<and> 0 < snd (snd (snd (fallback_values S u pe m p r db)))
      then stored_cost db k n + snd (snd (snd (fallback_values S u pe m p r db)))
      else stored_cost db k n)"
  by (auto simp add: record_fallback_usage_def stored_cost_def Let_def set_calls_def set_tokens_def
      add_cost_def new_summary_def split: prod.splits option.splits)

lemma stored_total_calls_record_fallback_usage:
  "stored_total_calls (record_fallback_usage S u pe m p r db) k =
     (if k = (u, get_current_billing_period S u) then stored_total_calls db k + 1
      else stored_total_calls db k)"
  by (auto simp add: record_fallback_usage_def stored_total_calls_def Let_def set_calls_def set_tokens_def
      add_cost_def new_summary_def split: prod.splits option.splits)

lemma stored_total_tokens_record_fallback_usage:
  "stored_total_tokens (record_fallback_usage S u pe m p r db) k =
     (if k = (u, get_current_billing_period S u)
      then stored_total_tokens db k + fst (snd (snd (fallback_values S u pe m p r db)))
      else stored_total_tokens db k)"
  by (auto simp add: record_fallback_usage_def stored_total_tokens_def Let_def set_calls_def set_tokens_def
      add_cost_def new_summary_def split: prod.splits option.splits)



lemma fst_track_usage:
  "fst (track_usage S u pe m p r db) = record_usage S u pe m p r db
   \<or> (fst (track_usage S u pe m p r db) = db \<and> snd (track_usage S u pe m p r db) \<noteq> [])"
  using run_steps_log_nonempty[of "faults S" "primary_steps S u pe m p r db"]
  by (auto simp add: track_usage_def Let_def case_prod_beta)

lemma fst_track_fallback_usage:
  "fst (track_fallback_usage S u pe m p r db) = record_fallback_usage S u pe m p r db
   \<or> (fst (track_fallback_usage S u pe m p r db) = db
       \<and> snd (track_fallback_usage S u pe m p r db) \<noteq> [])"
  using run_steps_log_nonempty[of "faults S" "fallback_steps S u pe m p r db"]
  by (auto simp add: track_fallback_usage_def Let_def case_prod_beta)

lemma track_recorded:
  "recorded fb S u pe m p r db \<Longrightarrow>
   fst (track fb S u pe m p r db) =
     (if fb then record_fallback_usage S u pe m p r db else record_usage S u pe m p r db)"
  by (auto simp add: recorded_def track_def track_usage_def track_fallback_usage_def Let_def
      split: prod.splits)

lemma recorded_no_faults: "faults S = {} \<Longrightarrow> recorded fb S u pe m p r db"
  by (simp add: recorded_def run_steps_no_faults)

lemma select_provider_known:
  "select_provider S = Inr (gp, m) \<Longrightarrow>
   gp \<in> set (available_providers S) \<and> gp \<in> set [''google'', ''openrouter'', ''huggingface'']"
  by (auto simp add: select_provider_def auto_detect_def env_choice_def Let_def
      split: if_splits)

lemma llm_text_gen_admitted:
  "admitted S prompt uid db gp m mapped \<Longrightarrow>
   llm_text_gen S prompt js (Some uid) db =
     dispatch S prompt js uid gp m mapped
       [QuotaCheck uid (fst mapped) (estimated_total_tokens prompt) (snd mapped)] db"
  by (auto simp add: admitted_def llm_text_gen_def subscription_check_def Let_def
      split: prod.splits)

lemma dispatch_returns:
  "primary_call gp (truthy_struct js) m = Some c \<Longrightarrow> backend S c prompt js = Returns r \<Longrightarrow>
   dispatch S prompt js uid gp m mapped evs db =
     (if truthy r
      then \<lparr>returned = Inr r, events = evs @ [ProviderCall c],
            summaries = fst (track False S uid (fst mapped) m prompt r db),
            ledger_log = snd (track False S uid (fst mapped) m prompt r db)\<rparr>
      else \<lparr>returned = Inr r, events = evs @ [ProviderCall c], summaries = db,
            ledger_log = []\<rparr>)"
  by (simp add: dispatch_def track_def case_prod_beta)

lemma dispatch_raises:
  "primary_call gp (truthy_struct js) m = Some c \<Longrightarrow> backend S c prompt js = Raises \<Longrightarrow>
   dispatch S prompt js uid gp m mapped evs db =
     fallback_attempt S prompt js uid gp mapped (evs @ [ProviderCall c]) db"
  by (simp add: dispatch_def)

lemma fallback_attempt_none:
  "fallback_providers S gp = [] \<Longrightarrow>
   fallback_attempt S prompt js uid gp mapped evs db = raises all_failed evs db"
  by (simp add: fallback_attempt_def)

lemma fallback_attempt_raises:
  "fallback_providers S gp = fb # rest \<Longrightarrow>
   fallback_call fb (truthy_struct js) (snd (snd (fallback_mapping S fb mapped))) = Some c \<Longrightarrow>
   backend S c prompt js = Raises \<Longrightarrow>
   fallback_attempt S prompt js uid gp mapped evs db
     = raises all_failed (evs @ [ProviderCall c]) db"
  by (simp add: fallback_attempt_def case_prod_beta)

lemma fallback_attempt_returns:
  "fallback_providers S gp = fb # rest \<Longrightarrow>
   fallback_call fb (truthy_struct js) (snd (snd (fallback_mapping S fb mapped))) = Some c \<Longrightarrow>
   backend S c prompt js = Returns r \<Longrightarrow>
   fallback_attempt S prompt js uid gp mapped evs db =
     (if truthy r
      then \<lparr>returned = Inr r, events = evs @ [ProviderCall c],
            summaries = fst (track True S uid (fst (fallback_mapping S fb mapped))
                               (snd (snd (fallback_mapping S fb mapped))) prompt r db),
            ledger_log = snd (track True S uid (fst (fallback_mapping S fb mapped))
                               (snd (snd (fallback_mapping S fb mapped))) prompt r db)\<rparr>
      else \<lparr>returned = Inr r, events = evs @ [ProviderCall c], summaries = db,
            ledger_log = []\<rparr>)"
  by (simp add: fallback_attempt_def track_def case_prod_beta)

lemma fallback_attempt_events:
  "\<exists>cs. events (fallback_attempt S prompt js uid gp mapped evs db) = evs @ map ProviderCall cs
        \<and> length cs \<le> 1"
proof (cases "fallback_providers S gp")
  case Nil
  then show ?thesis
    by (intro exI[of _ "[]"]) (simp add: fallback_attempt_def raises_def)
next
  case (Cons fb rest)
  show ?thesis
  proof (cases "fallback_call fb (truthy_struct js) (snd (snd (fallback_mapping S fb mapped)))")
    case None
    with Cons show ?thesis
      by (intro exI[of _ "[]"]) (simp add: fallback_attempt_def case_prod_beta)
  next
    case (Some c)
    with Cons show ?thesis
      by (intro exI[of _ "[c]"])
         (simp add: fallback_attempt_def raises_def case_prod_beta split: backend_result.splits)
  qed
qed

lemma dispatch_events:
  "\<exists>cs. events (dispatch S prompt js uid gp m mapped evs db) = evs @ map ProviderCall cs
        \<and> length cs \<le> 2"
proof (cases "primary_call gp (truthy_struct js) m")
  case None
  from fallback_attempt_events[of S prompt js uid gp mapped evs db]
  obtain cs where "events (fallback_attempt S prompt js uid gp mapped evs db)
      = evs @ map ProviderCall cs" "length cs \<le> 1" by blast
  with None show ?thesis
    by (intro exI[of _ cs]) (simp add: dispatch_def)
next
  case (Some c)
  show ?thesis
  proof (cases "backend S c prompt js")
    case Raises
    from fallback_attempt_events[of S prompt js uid gp mapped "evs @ [ProviderCall c]" db]
    obtain cs where "events (fallback_attempt S prompt js uid gp mapped
        (evs @ [ProviderCall c]) db) = (evs @ [ProviderCall c]) @ map ProviderCall cs"
      "length cs \<le> 1" by blast
    with Some Raises show ?thesis
      by (intro exI[of _ "c # cs"]) (simp add: dispatch_def)
  next
    case (Returns r)
    with Some show ?thesis
      by (intro exI[of _ "[c]"]) (simp add: dispatch_def case_prod_beta)
  qed
qed

lemma subscription_check_cases:
  "(\<exists>e evs. subscription_check S prompt js uid gp m mapped db = raises e evs db
          \<and> (evs = [] \<or> evs = [QuotaCheck uid (fst mapped) (estimated_total_tokens prompt)
                                   (snd mapped)]))
   \<or> subscription_check S prompt js uid gp m mapped db =
        dispatch S prompt js uid gp m mapped
          [QuotaCheck uid (fst mapped) (estimated_total_tokens prompt) (snd mapped)] db"
proof (cases "SubscriptionCheckFault \<in> faults S")
  case True
  then show ?thesis
    by (simp add: subscription_check_def) blast
next
  case False
  show ?thesis
  proof (cases "fst (check_usage_limits S db uid (fst mapped)
      (estimated_total_tokens prompt) (snd mapped))")
    case True
    with False show ?thesis
      by (cases "UsageQueryFault \<in> faults S")
         (simp_all add: subscription_check_def Let_def case_prod_beta, blast)
  next
    case denied: False
    with False show ?thesis
      by (simp add: subscription_check_def Let_def case_prod_beta) blast
  qed
qed

lemma llm_text_gen_cases:
  "(\<exists>e evs. llm_text_gen S prompt js user_id db = raises e evs db
          \<and> (evs = [] \<or> (\<exists>uid pe apn. user_id = Some uid
                \<and> evs = [QuotaCheck uid pe (estimated_total_tokens prompt) apn])))
   \<or> (\<exists>uid gp m mapped. user_id = Some uid \<and>
         llm_text_gen S prompt js user_id db =
           dispatch S prompt js uid gp m mapped
             [QuotaCheck uid (fst mapped) (estimated_total_tokens prompt) (snd mapped)] db)"
proof (cases "select_provider S")
  case (Inl e)
  then show ?thesis
    by (auto simp add: llm_text_gen_def)
next
  case (Inr gm)
  obtain gp m where gm: "gm = (gp, m)" by (cases gm)
  show ?thesis
  proof (cases "provider_enum_of gp")
    case None
    with Inr gm show ?thesis
      by (auto simp add: llm_text_gen_def)
  next
    case (Some mapped)
    show ?thesis
    proof (cases "\<exists>uid. user_id = Some uid \<and> uid \<noteq> []")
      case False
      with Inr gm Some show ?thesis
        by (cases user_id) (auto simp add: llm_text_gen_def)
    next
      case True
      then obtain uid where uid: "user_id = Some uid" "uid \<noteq> []" by blast
      with Inr gm Some have eq: "llm_text_gen S prompt js user_id db
          = subscription_check S prompt js uid gp m mapped db"
        by (simp add: llm_text_gen_def)
      from subscription_check_cases[of S prompt js uid gp m mapped db] uid(1) show ?thesis
        unfolding eq by blast
    qed
  qed
qed

lemma llm_text_gen_events:
  "events (llm_text_gen S prompt js user_id db) = []
   \<or> (\<exists>uid pe apn cs. user_id = Some uid \<and>
        events (llm_text_gen S prompt js user_id db)
          = QuotaCheck uid pe (estimated_total_tokens prompt) apn # map ProviderCall cs
        \<and> length cs \<le> 2)"
proof -
  consider
    (r) e evs where "llm_text_gen S prompt js user_id db = raises e evs db"
      "evs = [] \<or> (\<exists>uid pe apn. user_id = Some uid
          \<and> evs = [QuotaCheck uid pe (estimated_total_tokens prompt) apn])"
  | (d) uid gp m mapped where "user_id = Some uid"
      "llm_text_gen S prompt js user_id db =
         dispatch S prompt js uid gp m mapped
           [QuotaCheck uid (fst mapped) (estimated_total_tokens prompt) (snd mapped)] db"
    using llm_text_gen_cases[of S prompt js user_id db] by blast
  then show ?thesis
  proof cases
    case r
    then show ?thesis
      by (auto simp add: raises_def intro: exI[of _ "[]"])
  next
    case d
    from dispatch_events[of S prompt js uid gp m mapped
        "[QuotaCheck uid (fst mapped) (estimated_total_tokens prompt) (snd mapped)]" db]
    obtain cs where "events (llm_text_gen S prompt js user_id db)
        = QuotaCheck uid (fst mapped) (estimated_total_tokens prompt) (snd mapped)
            # map ProviderCall cs" "length cs \<le> 2"
      using d(2) by auto
    with d(1) show ?thesis by blast
  qed
qed

lemma summaries_cases:
  assumes "P db"
    and "\<And>u pe m r. P (record_usage S u pe m prompt r db)"
    and "\<And>u pe m r. P (record_fallback_usage S u pe m prompt r db)"
  shows "P (summaries (llm_text_gen S prompt js user_id db))"
proof -
  have t: "\<And>u pe m r. P (fst (track_usage S u pe m prompt r db))"
    using fst_track_usage assms(1,2) by metis
  have tf: "\<And>u pe m r. P (fst (track_fallback_usage S u pe m prompt r db))"
    using fst_track_fallback_usage assms(1,3) by metis
  have f: "\<And>uid gp mapped evs. P (summaries (fallback_attempt S prompt js uid gp mapped evs db))"
    using assms(1) tf
    by (auto simp add: fallback_attempt_def raises_def Let_def
        split: list.splits prod.splits option.splits backend_result.splits)
       (metis fst_conv)+
  have d: "\<And>uid gp m mapped evs. P (summaries (dispatch S prompt js uid gp m mapped evs db))"
    using assms(1) t f
    by (auto simp add: dispatch_def Let_def
        split: prod.splits option.splits backend_result.splits)
       (metis fst_conv)+
  show ?thesis
    using assms(1) d
    by (auto simp add: llm_text_gen_def subscription_check_def raises_def Let_def
        split: sum.splits option.splits prod.splits)
qed

lemma larger_of_agrees:
  "(real_of_int (e + M) = real_of_int e + max (real_of_int M) (1.5 * real_of_int e))
     = (3 * e \<le> 2 * M)"
proof -
  have "(3 * e \<le> 2 * M) = (real_of_int (3 * e) \<le> real_of_int (2 * M))"
    by (simp only: of_int_le_iff)
  also have "\<dots> = (1.5 * real_of_int e \<le> real_of_int M)"
    by (simp add: mult.commute)
  finally have k: "(3 * e \<le> 2 * M) = (1.5 * real_of_int e \<le> real_of_int M)" .
  show ?thesis
    unfolding k by (auto simp add: max_def)
qed

subsection \<open>Facts about the accounting\<close>

lemma primary_values_calls:
  "CountQueryFault \<notin> faults S \<Longrightarrow>
   fst (primary_values S u pe m p r db)
     = stored_calls db (u, get_current_billing_period S u) (provider_value pe) + 1"
  by (simp add: primary_values_def Let_def case_prod_beta current_before_read)

lemma primary_values_tokens:
  "tracks_tokens pe \<Longrightarrow>
   fst (snd (primary_values S u pe m p r db))
     = fst (safety_check (token_limit_of (get_user_limits S u) (provider_value pe))
              (snd (current_before S db (u, get_current_billing_period S u)
                      (provider_value pe)))
              (estimate_tokens p + estimate_tokens (str_of r)))"
  by (simp add: primary_values_def Let_def case_prod_beta)

lemma primary_values_total:
  "tracks_tokens pe \<Longrightarrow>
   fst (snd (snd (primary_values S u pe m p r db)))
     = snd (safety_check (token_limit_of (get_user_limits S u) (provider_value pe))
              (snd (current_before S db (u, get_current_billing_period S u)
                      (provider_value pe)))
              (estimate_tokens p + estimate_tokens (str_of r)))"
  by (simp add: primary_values_def Let_def case_prod_beta)

lemma primary_values_untracked:
  "\<not> tracks_tokens pe \<Longrightarrow>
   fst (snd (snd (primary_values S u pe m p r db)))
     = estimate_tokens p + estimate_tokens (str_of r)"
  by (simp add: primary_values_def Let_def case_prod_beta)

lemma fallback_values_calls:
  "fst (fallback_values S u pe m p r db)
     = stored_calls db (u, get_current_billing_period S u) (provider_value pe) + 1"
  by (simp add: fallback_values_def Let_def case_prod_beta)

lemma fallback_values_tokens:
  "tracks_tokens_fallback pe \<Longrightarrow>
   fst (snd (fallback_values S u pe m p r db))
     = fst (safety_check (token_limit_of (get_user_limits S u) (provider_value pe))
              (stored_tokens db (u, get_current_billing_period S u) (provider_value pe))
              (estimate_tokens p + estimate_tokens (str_of r)))"
  by (simp add: fallback_values_def Let_def case_prod_beta)

lemma fallback_values_total:
  "tracks_tokens_fallback pe \<Longrightarrow>
   fst (snd (snd (fallback_values S u pe m p r db)))
     = snd (safety_check (token_limit_of (get_user_limits S u) (provider_value pe))
              (stored_tokens db (u, get_current_billing_period S u) (provider_value pe))
              (estimate_tokens p + estimate_tokens (str_of r)))"
  by (simp add: fallback_values_def Let_def case_prod_beta)

lemma tracks_tokens_fallback_all: "tracks_tokens_fallback pe"
  by (cases pe) (simp_all add: tracks_tokens_fallback_def)

lemma record_usage_within_ceilings:
  assumes "within_ceilings L db" and "get_user_limits S = L"
  shows "within_ceilings L (record_usage S u pe m p r db)"
  unfolding within_ceilings_def
proof (intro allI impI)
  fix user period name
  assume pos: "0 < token_limit_of (L user) name"
  from pos assms(1) have old: "stored_tokens db (user, period) name
      \<le> token_limit_of (L user) name"
    unfolding within_ceilings_def by blast
  have new: "tracks_tokens pe \<Longrightarrow> user = u \<Longrightarrow> name = provider_value pe \<Longrightarrow>
      fst (snd (primary_values S u pe m p r db)) \<le> token_limit_of (L user) name"
    using pos assms(2) by (simp add: primary_values_tokens safety_check_le)
  from current_before_tokens[of S db "(user, period)" name] old new pos
  show "stored_tokens (record_usage S u pe m p r db) (user, period) name
          \<le> token_limit_of (L user) name"
    unfolding record_usage_counters
    by (auto simp add: flushed_def stored_tokens_def split: option.splits)
qed

lemma record_fallback_usage_within_ceilings:
  assumes "within_ceilings L db" and "get_user_limits S = L"
  shows "within_ceilings L (record_fallback_usage S u pe m p r db)"
  unfolding within_ceilings_def
proof (intro allI impI)
  fix user period name
  assume pos: "0 < token_limit_of (L user) name"
  show "stored_tokens (record_fallback_usage S u pe m p r db) (user, period) name
          \<le> token_limit_of (L user) name"
  proof (cases "(user, period) = (u, get_current_billing_period S u)
      \<and> name = provider_value pe \<and> tracks_tokens_fallback pe")
    case True
    with pos assms(2) show ?thesis
      by (simp add: stored_tokens_record_fallback_usage fallback_values_tokens Let_def
          safety_check_le)
  next
    case False
    with pos assms(1) show ?thesis
      unfolding stored_tokens_record_fallback_usage within_ceilings_def by auto
  qed
qed

lemma llm_text_gen_within_ceilings:
  assumes "within_ceilings L db" and "get_user_limits S = L"
  shows "within_ceilings L (summaries (llm_text_gen S prompt js user_id db))"
  by (rule summaries_cases)
     (simp_all add: assms record_usage_within_ceilings record_fallback_usage_within_ceilings)

lemma after_requests_within_ceilings:
  "within_ceilings L db \<Longrightarrow> \<forall>q \<in> set reqs. get_user_limits (fst q) = L \<Longrightarrow>
   within_ceilings L (after_requests reqs db)"
proof (induction reqs arbitrary: db)
  case Nil
  then show ?case by simp
next
  case (Cons q reqs)
  obtain S prompt js user_id where q: "q = (S, prompt, js, user_id)"
    by (cases q) auto
  from Cons.prems(2) q have "get_user_limits S = L" by simp
  with Cons.prems(1)
  have "within_ceilings L (summaries (llm_text_gen S prompt js user_id db))"
    by (rule llm_text_gen_within_ceilings)
  moreover from Cons.prems(2) have "\<forall>q \<in> set reqs. get_user_limits (fst q) = L" by simp
  ultimately show ?case
    unfolding q by (simp add: Cons.IH)
qed

lemma within_ceilings_empty: "within_ceilings L Map.empty"
  by (simp add: within_ceilings_def stored_tokens_def)

text \<open>The effect of a recorded accounting on the counters of its provider.\<close>

lemma track_effect:
  assumes rec: "recorded fb S u pe m p r db"
  defines "key \<equiv> (u, get_current_billing_period S u)"
    and "name \<equiv> provider_value pe"
    and "actual \<equiv> estimate_tokens p + estimate_tokens (str_of r)"
  defines "sc \<equiv> safety_check (token_limit_of (get_user_limits S u) name)
                  (stored_tokens db key name) actual"
  shows "stored_calls (fst (track fb S u pe m p r db)) key name = stored_calls db key name + 1"
    and "token_tracked fb pe \<Longrightarrow>
           stored_tokens (fst (track fb S u pe m p r db)) key name = fst sc"
    and "\<not> token_tracked fb pe \<Longrightarrow>
           stored_tokens (fst (track fb S u pe m p r db)) key name = stored_tokens db key name"
    and "stored_total_calls (fst (track fb S u pe m p r db)) key = stored_total_calls db key + 1"
    and "stored_total_tokens (fst (track fb S u pe m p r db)) key
           = stored_total_tokens db key + (if token_tracked fb pe then snd sc else actual)"
proof -
  show "stored_calls (fst (track fb S u pe m p r db)) key name = stored_calls db key name + 1"
  proof (cases fb)
    case True
    with rec show ?thesis
      by (simp add: track_recorded stored_calls_record_fallback_usage fallback_values_calls
          key_def name_def)
  next
    case False
    with rec have "CountQueryFault \<notin> faults S" by (simp add: recorded_def)
    with rec False show ?thesis
      by (simp add: track_recorded stored_calls_record_usage primary_values_calls
          key_def name_def)
  qed
next
  assume t: "token_tracked fb pe"
  show "stored_tokens (fst (track fb S u pe m p r db)) key name = fst sc"
  proof (cases fb)
    case True
    with rec t show ?thesis
      by (simp add: track_recorded stored_tokens_record_fallback_usage fallback_values_tokens
          token_tracked_def key_def name_def sc_def actual_def Let_def)
  next
    case False
    with rec have "CountQueryFault \<notin> faults S" by (simp add: recorded_def)
    with rec False t show ?thesis
      by (simp add: track_recorded stored_tokens_record_usage primary_values_tokens
          current_before_read token_tracked_def key_def name_def sc_def actual_def Let_def)
  qed
next
  assume t: "\<not> token_tracked fb pe"
  show "stored_tokens (fst (track fb S u pe m p r db)) key name = stored_tokens db key name"
  proof (cases fb)
    case True
    with t show ?thesis
      by (simp add: token_tracked_def tracks_tokens_fallback_all)
  next
    case False
    with rec have "CountQueryFault \<notin> faults S" by (simp add: recorded_def)
    with rec False t show ?thesis
      by (simp add: track_recorded stored_tokens_record_usage token_tracked_def)
  qed
next
  show "stored_total_calls (fst (track fb S u pe m p r db)) key = stored_total_calls db key + 1"
    using rec
    by (cases fb)
       (simp_all add: track_recorded stored_total_calls_record_usage
          stored_total_calls_record_fallback_usage key_def)
next
  show "stored_total_tokens (fst (track fb S u pe m p r db)) key
           = stored_total_tokens db key + (if token_tracked fb pe then snd sc else actual)"
  proof (cases fb)
    case True
    with rec show ?thesis
      by (simp add: track_recorded stored_total_tokens_record_fallback_usage
          fallback_values_total token_tracked_def tracks_tokens_fallback_all
          key_def name_def sc_def actual_def Let_def)
  next
    case False
    with rec have c: "CountQueryFault \<notin> faults S" by (simp add: recorded_def)
    show ?thesis
    proof (cases "tracks_tokens pe")
      case True
      with rec False c show ?thesis
        by (simp add: track_recorded stored_total_tokens_record_usage primary_values_total
            current_before_read token_tracked_def key_def name_def sc_def actual_def Let_def)
    next
      case untracked: False
      with rec False show ?thesis
        by (simp add: track_recorded stored_total_tokens_record_usage primary_values_untracked
            token_tracked_def key_def actual_def)
    qed
  qed
qed

text \<open>Counters of every other provider are not touched by the accounting.\<close>

lemma track_frame:
  assumes "name \<noteq> provider_value pe"
  shows "stored_calls (fst (track fb S u pe m p r db)) key name = stored_calls db key name"
    and "stored_tokens (fst (track fb S u pe m p r db)) key name = stored_tokens db key name"
    and "stored_cost (fst (track fb S u pe m p r db)) key name = stored_cost db key name"
proof -
  have c: "fst (track fb S u pe m p r db) = db
      \<or> fst (track fb S u pe m p r db) = record_usage S u pe m p r db
      \<or> fst (track fb S u pe m p r db) = record_fallback_usage S u pe m p r db"
    using fst_track_usage[of S u pe m p r db] fst_track_fallback_usage[of S u pe m p r db]
    by (cases fb) (auto simp add: track_def)
  from c assms
  show "stored_calls (fst (track fb S u pe m p r db)) key name = stored_calls db key name"
    by (auto simp add: record_usage_counters(1) stored_calls_record_fallback_usage)
  from c assms
  show "stored_tokens (fst (track fb S u pe m p r db)) key name = stored_tokens db key name"
    by (auto simp add: record_usage_counters(2) stored_tokens_record_fallback_usage)
  from c assms
  show "stored_cost (fst (track fb S u pe m p r db)) key name = stored_cost db key name"
    by (auto simp add: stored_cost_record_usage stored_cost_record_fallback_usage)
qed














text \<open>Facts about the example surroundings.\<close>

lemma example_table_within_ceilings:
  "within_ceilings example_limits (example_table ''gemini'' 3 980)"
  by (auto simp add: within_ceilings_def stored_tokens_def example_table_def new_summary_def
      example_limits_def token_limit_of_def split: if_splits option.splits)

lemma example_recorded:
  "recorded fb (example_services env back {}) u pe m p r db"
  by (simp add: recorded_no_faults example_services_def)

subsection \<open>The ceiling on stored tokens\<close>

text \<open>
  The bound itself. Over any sequence of requests under one table of plans, the stored
  token counters stay within their ceilings where a ceiling is configured (above 0),
  from any table that is within them, in particular from the empty one. In both
  accounting paths, when the path writes the token counter of the provider and the
  stored tokens plus the actual total would exceed the ceiling, the value stored is
  exactly the ceiling.
\<close>

theorem stored_tokens_within_ceiling:
  "(within_ceilings L db \<and> (\<forall>q \<in> set reqs. get_user_limits (fst q) = L)
      \<longrightarrow> within_ceilings L (after_requests reqs db))
   \<and> ((\<forall>q \<in> set reqs. get_user_limits (fst q) = L)
      \<longrightarrow> within_ceilings L (after_requests reqs Map.empty))
   \<and> (recorded fb S u pe m p r db \<and> token_tracked fb pe
        \<and> 0 < token_limit_of (get_user_limits S u) (provider_value pe)
        \<and> token_limit_of (get_user_limits S u) (provider_value pe)
            < stored_tokens db (u, get_current_billing_period S u) (provider_value pe)
                + (estimate_tokens p + estimate_tokens (str_of r))
      \<longrightarrow> stored_tokens (fst (track fb S u pe m p r db))
             (u, get_current_billing_period S u) (provider_value pe)
           = token_limit_of (get_user_limits S u) (provider_value pe))"
proof (intro conjI impI)
  assume "within_ceilings L db \<and> (\<forall>q \<in> set reqs. get_user_limits (fst q) = L)"
  then show "within_ceilings L (after_requests reqs db)"
    by (simp add: after_requests_within_ceilings)
next
  assume "\<forall>q \<in> set reqs. get_user_limits (fst q) = L"
  then show "within_ceilings L (after_requests reqs Map.empty)"
    by (simp add: after_requests_within_ceilings within_ceilings_empty)
next
  assume h: "recorded fb S u pe m p r db \<and> token_tracked fb pe
        \<and> 0 < token_limit_of (get_user_limits S u) (provider_value pe)
        \<and> token_limit_of (get_user_limits S u) (provider_value pe)
            < stored_tokens db (u, get_current_billing_period S u) (provider_value pe)
                + (estimate_tokens p + estimate_tokens (str_of r))"
  then have "stored_tokens (fst (track fb S u pe m p r db))
             (u, get_current_billing_period S u) (provider_value pe)
      = fst (safety_check (token_limit_of (get_user_limits S u) (provider_value pe))
               (stored_tokens db (u, get_current_billing_period S u) (provider_value pe))
               (estimate_tokens p + estimate_tokens (str_of r)))"
    by (simp add: track_effect(2))
  with h show "stored_tokens (fst (track fb S u pe m p r db))
             (u, get_current_billing_period S u) (provider_value pe)
           = token_limit_of (get_user_limits S u) (provider_value pe)"
    by (simp add: safety_check_clamped)
qed

theorem stored_tokens_within_ceiling_witness:
  "within_ceilings example_limits (example_table ''gemini'' 3 980)
   \<and> within_ceilings example_limits
       (after_requests
          [(example_services ''google'' (\<lambda>c. Returns long_response) {}, ''write a poem'',
            None, Some ''u1''),
           (example_services ''openrouter'' (only_answers ''huggingface'' long_response)
              {VerifyFault}, ''write a poem'', None, Some ''u2'')]
          (example_table ''gemini'' 3 980))
   \<and> recorded False (example_services ''google'' (\<lambda>c. Returns long_response) {}) ''u1''
       GEMINI ''gemini-2.0-flash-001'' ''write a poem'' long_response
       (example_table ''gemini'' 3 980)
   \<and> stored_tokens
       (fst (track False (example_services ''google'' (\<lambda>c. Returns long_response) {}) ''u1''
          GEMINI ''gemini-2.0-flash-001'' ''write a poem'' long_response
          (example_table ''gemini'' 3 980))) (''u1'', ''2026-11'') ''gemini'' = 1000
   \<and> stored_tokens
       (fst (track True (example_services ''google'' (\<lambda>c. Returns long_response) {}) ''u1''
          OPENROUTER ''openai/gpt-4-turbo'' ''write a poem'' long_response
          (example_table ''openrouter'' 3 980))) (''u1'', ''2026-11'') ''openrouter'' = 1000"
proof -
  let ?S = "example_services ''google'' (\<lambda>c. Returns long_response) {}"
  let ?reqs = "[(?S, ''write a poem'', None, Some ''u1''),
           (example_services ''openrouter'' (only_answers ''huggingface'' long_response)
              {VerifyFault}, ''write a poem'', None, Some ''u2'')]"
  have lims: "\<forall>q \<in> set ?reqs. get_user_limits (fst q) = example_limits"
    by (simp add: example_services_def)
  have rec: "\<And>fb pe m db. recorded fb ?S ''u1'' pe m ''write a poem'' long_response db"
    by (rule example_recorded)
  have per: "get_current_billing_period ?S ''u1'' = ''2026-11''"
    by (simp add: example_services_def)
  have lim: "token_limit_of (get_user_limits ?S ''u1'') ''gemini'' = 1000"
    "token_limit_of (get_user_limits ?S ''u1'') ''openrouter'' = 1000"
    by (simp_all add: example_services_def example_limits_def token_limit_of_def)
  have old: "stored_tokens (example_table ''gemini'' 3 980) (''u1'', ''2026-11'') ''gemini'' = 980"
    "stored_tokens (example_table ''openrouter'' 3 980) (''u1'', ''2026-11'') ''openrouter'' = 980"
    by (simp_all add: stored_tokens_def example_table_def new_summary_def)
  have act: "estimate_tokens ''write a poem'' + estimate_tokens (str_of long_response) = 100"
    by code_simp
  have tt: "token_tracked False GEMINI" "token_tracked True OPENROUTER"
    by (simp_all add: token_tracked_def tracks_tokens_def tracks_tokens_fallback_def)
  note t = stored_tokens_within_ceiling
  from t[where L=example_limits and db="example_table ''gemini'' 3 980" and reqs="?reqs"]
    example_table_within_ceilings lims
  have c1: "within_ceilings example_limits
      (after_requests ?reqs (example_table ''gemini'' 3 980))"
    by blast
  from t[where fb=False and S="?S" and u="''u1''" and pe=GEMINI
      and m="''gemini-2.0-flash-001''" and p="''write a poem''" and r=long_response
      and db="example_table ''gemini'' 3 980"]
    rec tt(1) lim(1) old(1) act per
  have c2: "stored_tokens
       (fst (track False ?S ''u1'' GEMINI ''gemini-2.0-flash-001'' ''write a poem''
          long_response (example_table ''gemini'' 3 980))) (''u1'', ''2026-11'') ''gemini''
      = 1000"
    by simp
  from t[where fb=True and S="?S" and u="''u1''" and pe=OPENROUTER
      and m="''openai/gpt-4-turbo''" and p="''write a poem''" and r=long_response
      and db="example_table ''openrouter'' 3 980"]
    rec tt(2) lim(2) old(2) act per
  have c3: "stored_tokens
       (fst (track True ?S ''u1'' OPENROUTER ''openai/gpt-4-turbo'' ''write a poem''
          long_response (example_table ''openrouter'' 3 980))) (''u1'', ''2026-11'')
          ''openrouter'' = 1000"
    by simp
  from example_table_within_ceilings c1 rec c2 c3 show ?thesis by simp
qed


subsection \<open>The aggregate totals\<close>

text \<open>
  Claim C2, amended. For a recorded call whose token write is clamped at the ceiling,
  in either accounting path, the provider's counter is the ceiling, \<^verbatim>\<open>total_calls\<close>
  grows by 1 and \<^verbatim>\<open>total_tokens\<close> grows by the tracked total after the clamp, the
  ceiling minus the tokens stored before (at least 0), not by the actual total.
\<close>

theorem totals_follow_tracked_total:
  assumes "recorded fb S u pe m p r db" and "token_tracked fb pe"
    and "0 < token_limit_of (get_user_limits S u) (provider_value pe)"
    and "token_limit_of (get_user_limits S u) (provider_value pe)
            < stored_tokens db (u, get_current_billing_period S u) (provider_value pe)
                + (estimate_tokens p + estimate_tokens (str_of r))"
  shows "stored_tokens (fst (track fb S u pe m p r db))
             (u, get_current_billing_period S u) (provider_value pe)
           = token_limit_of (get_user_limits S u) (provider_value pe)
       \<and> stored_total_calls (fst (track fb S u pe m p r db)) (u, get_current_billing_period S u)
           = stored_total_calls db (u, get_current_billing_period S u) + 1
       \<and> stored_total_tokens (fst (track fb S u pe m p r db))
             (u, get_current_billing_period S u)
           = stored_total_tokens db (u, get_current_billing_period S u)
             + max (token_limit_of (get_user_limits S u) (provider_value pe)
                    - stored_tokens db (u, get_current_billing_period S u) (provider_value pe)) 0"
  using assms
  by (simp add: track_effect safety_check_clamped)

text \<open>
  The plan caps gemini at 1000 tokens, 980 are stored, and the call totals 100 actual
  tokens: the provider's counter is written as 1000 and \<^verbatim>\<open>total_tokens\<close> goes from
  980 to 1000, not to 1080.
\<close>

theorem totals_counterexample:
  "returned (llm_text_gen (example_services ''google'' (\<lambda>c. Returns long_response) {})
        ''write a poem'' None (Some ''u1'') (example_table ''gemini'' 3 980)) = Inr long_response
   \<and> estimate_tokens ''write a poem'' + estimate_tokens (str_of long_response) = 100
   \<and> stored_tokens (summaries (llm_text_gen (example_services ''google'' (\<lambda>c. Returns long_response) {})
        ''write a poem'' None (Some ''u1'') (example_table ''gemini'' 3 980)))
        (''u1'', ''2026-11'') ''gemini'' = 1000
   \<and> stored_total_tokens (example_table ''gemini'' 3 980) (''u1'', ''2026-11'') = 980
   \<and> stored_total_tokens (summaries (llm_text_gen (example_services ''google'' (\<lambda>c. Returns long_response) {})
        ''write a poem'' None (Some ''u1'') (example_table ''gemini'' 3 980)))
        (''u1'', ''2026-11'') = 1000"
  by code_simp

theorem totals_follow_tracked_total_witness:
  "recorded False (example_services ''google'' (\<lambda>c. Returns long_response) {}) ''u1''
       GEMINI ''gemini-2.0-flash-001'' ''write a poem'' long_response
       (example_table ''gemini'' 3 980)
   \<and> token_tracked False GEMINI
   \<and> estimate_tokens ''write a poem'' + estimate_tokens (str_of long_response) = 100
   \<and> stored_total_calls
       (fst (track False (example_services ''google'' (\<lambda>c. Returns long_response) {}) ''u1''
          GEMINI ''gemini-2.0-flash-001'' ''write a poem'' long_response
          (example_table ''gemini'' 3 980))) (''u1'', ''2026-11'') = 4
   \<and> stored_total_tokens
       (fst (track False (example_services ''google'' (\<lambda>c. Returns long_response) {}) ''u1''
          GEMINI ''gemini-2.0-flash-001'' ''write a poem'' long_response
          (example_table ''gemini'' 3 980))) (''u1'', ''2026-11'') = 1000"
proof -
  let ?S = "example_services ''google'' (\<lambda>c. Returns long_response) {}"
  have rec: "recorded False ?S ''u1'' GEMINI ''gemini-2.0-flash-001'' ''write a poem''
      long_response (example_table ''gemini'' 3 980)"
    by (rule example_recorded)
  have tt: "token_tracked False GEMINI"
    by (simp add: token_tracked_def tracks_tokens_def)
  have per: "get_current_billing_period ?S ''u1'' = ''2026-11''"
    by (simp add: example_services_def)
  have lim: "token_limit_of (get_user_limits ?S ''u1'') ''gemini'' = 1000"
    by (simp add: example_services_def example_limits_def token_limit_of_def)
  have old: "stored_tokens (example_table ''gemini'' 3 980) (''u1'', ''2026-11'') ''gemini'' = 980"
    "stored_total_tokens (example_table ''gemini'' 3 980) (''u1'', ''2026-11'') = 980"
    "stored_total_calls (example_table ''gemini'' 3 980) (''u1'', ''2026-11'') = 3"
    by (simp_all add: stored_tokens_def stored_total_tokens_def stored_total_calls_def
        example_table_def new_summary_def)
  have act: "estimate_tokens ''write a poem'' + estimate_tokens (str_of long_response) = 100"
    by code_simp
  have pos: "0 < token_limit_of (get_user_limits ?S ''u1'') (provider_value GEMINI)"
    by (simp add: lim)
  have over: "token_limit_of (get_user_limits ?S ''u1'') (provider_value GEMINI)
      < stored_tokens (example_table ''gemini'' 3 980)
          (''u1'', get_current_billing_period ?S ''u1'') (provider_value GEMINI)
        + (estimate_tokens ''write a poem'' + estimate_tokens (str_of long_response))"
    by (simp add: lim per old act)
  from totals_follow_tracked_total[OF rec tt pos over] rec tt act
  show ?thesis
    by (simp add: lim per old)
qed

subsection \<open>Tokens of a call served by OpenRouter as the selected provider\<close>

text \<open>
  Claim C4. With OpenRouter selected and answering, a prompt and a response of 6
  estimated tokens in all: the call is counted and \<^verbatim>\<open>total_tokens\<close> is 6, but
  \<^verbatim>\<open>openrouter_tokens\<close> stays 0, since the list of providers whose tokens the primary
  path writes leaves \<^verbatim>\<open>OPENROUTER\<close> out. The fallback path, on the same prompt and
  response, stores 6.
\<close>

theorem openrouter_primary_tokens_unwritten:
  "returned (llm_text_gen
       (example_services ''openrouter'' (only_answers ''openrouter'' (Text ''hello there world'')) {})
       ''write a poem'' None (Some ''u1'') Map.empty) = Inr (Text ''hello there world'')
   \<and> estimate_tokens ''write a poem'' + estimate_tokens ''hello there world'' = 6
   \<and> stored_calls (summaries (llm_text_gen
       (example_services ''openrouter'' (only_answers ''openrouter'' (Text ''hello there world'')) {})
       ''write a poem'' None (Some ''u1'') Map.empty)) (''u1'', ''2026-11'') ''openrouter'' = 1
   \<and> stored_tokens (summaries (llm_text_gen
       (example_services ''openrouter'' (only_answers ''openrouter'' (Text ''hello there world'')) {})
       ''write a poem'' None (Some ''u1'') Map.empty)) (''u1'', ''2026-11'') ''openrouter'' = 0
   \<and> stored_total_tokens (summaries (llm_text_gen
       (example_services ''openrouter'' (only_answers ''openrouter'' (Text ''hello there world'')) {})
       ''write a poem'' None (Some ''u1'') Map.empty)) (''u1'', ''2026-11'') = 6
   \<and> stored_tokens (summaries (llm_text_gen
       (example_services ''google'' (only_answers ''openrouter'' (Text ''hello there world'')) {})
       ''write a poem'' None (Some ''u1'') Map.empty)) (''u1'', ''2026-11'') ''openrouter'' = 6"
  by code_simp

subsection \<open>The pre-flight estimate\<close>

text \<open>
  Claim C3, amended. Whenever the quota check is made, the total it is asked about is
  the input estimate plus the configured maximum of output tokens (4000, always set):
  1.5 times the input estimate does not enter it. It agrees with the larger-of formula
  of the specification exactly when 1.5 times the input estimate is at most the maximum.
\<close>

theorem preflight_total_uses_max_tokens:
  assumes "QuotaCheck u p n a \<in> set (events (llm_text_gen S prompt js user_id db))"
  shows "n = estimate_tokens prompt + max_tokens
       \<and> ((real_of_int n = worst_case_total_spec prompt)
            = (3 * estimate_tokens prompt \<le> 2 * max_tokens))"
proof -
  from llm_text_gen_events[of S prompt js user_id db] assms
  have "n = estimated_total_tokens prompt"
    by auto
  then have n: "n = estimate_tokens prompt + max_tokens"
    by (simp add: estimated_total_tokens_def estimated_output_tokens_def max_tokens_def Let_def)
  have "(real_of_int (estimate_tokens prompt + max_tokens) = worst_case_total_spec prompt)
          = (3 * estimate_tokens prompt \<le> 2 * max_tokens)"
    unfolding worst_case_total_spec_def by (rule larger_of_agrees)
  with n show ?thesis by simp
qed

text \<open>
  For a prompt of 3000 words the input estimate is 3900 and 1.5 times it is 5850; the
  check is asked about 7900 tokens, the formula of the specification gives 9750.
\<close>

theorem preflight_total_counterexample:
  "QuotaCheck ''u1'' GEMINI 7900 ''gemini''
     \<in> set (events (llm_text_gen (example_services ''google'' (\<lambda>c. Raises) {})
                (concat (replicate 3000 ''a '')) None (Some ''u1'') Map.empty))
   \<and> worst_case_total_spec (concat (replicate 3000 ''a '')) = 9750"
proof -
  have e: "estimate_tokens (concat (replicate 3000 ''a '')) = 3900"
    by (simp add: estimate_tokens_replicate)
  have a: "admitted (example_services ''google'' (\<lambda>c. Raises) {})
      (concat (replicate 3000 ''a '')) ''u1'' Map.empty ''google'' ''gemini-2.0-flash-001''
      (GEMINI, ''gemini'')"
    by (simp add: admitted_def select_provider_def example_services_def env_choice_def
        available_providers_def provider_enum_of_def)
  from dispatch_events obtain cs where
    "events (dispatch (example_services ''google'' (\<lambda>c. Raises) {})
       (concat (replicate 3000 ''a '')) None ''u1'' ''google'' ''gemini-2.0-flash-001''
       (GEMINI, ''gemini'')
       [QuotaCheck ''u1'' GEMINI (estimated_total_tokens (concat (replicate 3000 ''a '')))
          ''gemini''] Map.empty)
     = [QuotaCheck ''u1'' GEMINI (estimated_total_tokens (concat (replicate 3000 ''a '')))
          ''gemini''] @ map ProviderCall cs"
    by blast
  then have "QuotaCheck ''u1'' GEMINI (estimated_total_tokens (concat (replicate 3000 ''a '')))
      ''gemini'' \<in> set (events (llm_text_gen (example_services ''google'' (\<lambda>c. Raises) {})
                (concat (replicate 3000 ''a '')) None (Some ''u1'') Map.empty))"
    using llm_text_gen_admitted[OF a, of None] by simp
  moreover have "estimated_total_tokens (concat (replicate 3000 ''a '')) = 7900"
    by (simp add: estimated_total_tokens_def e estimated_output_tokens_def max_tokens_def)
  moreover have "worst_case_total_spec (concat (replicate 3000 ''a '')) = 9750"
    by (simp add: worst_case_total_spec_def e max_tokens_def)
  ultimately show ?thesis by simp
qed

theorem preflight_total_witness:
  "QuotaCheck ''u1'' GEMINI 4003 ''gemini''
     \<in> set (events (llm_text_gen (example_services ''google'' (\<lambda>c. Raises) {})
                ''write a poem'' None (Some ''u1'') Map.empty))
   \<and> (4003::int) = estimate_tokens ''write a poem'' + max_tokens
   \<and> real_of_int 4003 = worst_case_total_spec ''write a poem''"
proof -
  have h: "QuotaCheck ''u1'' GEMINI 4003 ''gemini''
     \<in> set (events (llm_text_gen (example_services ''google'' (\<lambda>c. Raises) {})
                ''write a poem'' None (Some ''u1'') Map.empty))"
    by code_simp
  have e: "3 * estimate_tokens ''write a poem'' \<le> 2 * max_tokens"
    by code_simp
  from preflight_total_uses_max_tokens[OF h] e h show ?thesis
    by blast
qed

subsection \<open>Configuration errors\<close>

lemma provider_enum_of_known:
  "gp \<in> set [''google'', ''openrouter'', ''huggingface''] \<Longrightarrow> \<exists>mapped. provider_enum_of gp = Some mapped \<and> snd mapped \<noteq> []"
  by (auto simp add: provider_enum_of_def)

lemma select_provider_errors:
  "select_provider S = Inl e \<Longrightarrow>
   e = RuntimeError no_keys_message \<or> e = RuntimeError ''No supported providers available.''"
  by (auto simp add: select_provider_def auto_detect_def Let_def split: if_splits)

text \<open>
  Claim C8. If no provider has a key, or no user id is given (absent or empty), the
  request fails with a \<^verbatim>\<open>RuntimeError\<close> of the configuration before any quota check
  and any provider call: no event is recorded, and the table is left as it was.
\<close>

theorem configuration_error_before_any_work:
  assumes "available_providers S = [] \<or> user_id = None \<or> user_id = Some []"
  shows "returned (llm_text_gen S prompt js user_id db)
           \<in> {Inl (RuntimeError no_keys_message),
              Inl (RuntimeError ''No supported providers available.''),
              Inl user_id_required}
       \<and> events (llm_text_gen S prompt js user_id db) = []
       \<and> summaries (llm_text_gen S prompt js user_id db) = db
       \<and> ledger_log (llm_text_gen S prompt js user_id db) = []"
proof (cases "select_provider S")
  case (Inl e)
  with select_provider_errors[OF Inl] show ?thesis
    by (auto simp add: llm_text_gen_def raises_def)
next
  case (Inr gm)
  obtain gp m where gm: "gm = (gp, m)" by (cases gm)
  from Inr gm select_provider_known[of S gp m]
  have known: "gp \<in> set (available_providers S)"
    "gp \<in> set [''google'', ''openrouter'', ''huggingface'']" by simp_all
  from provider_enum_of_known[OF known(2)] obtain mapped
    where mapped: "provider_enum_of gp = Some mapped" by blast
  from known(1) assms have "user_id = None \<or> user_id = Some []" by auto
  with Inr gm mapped show ?thesis
    by (auto simp add: llm_text_gen_def raises_def)
qed

theorem configuration_error_witness:
  "returned (llm_text_gen (example_services ''google'' (\<lambda>c. Returns (Text ''hello'')) {})
      ''write a poem'' None None (example_table ''gemini'' 1 10)) = Inl user_id_required
   \<and> events (llm_text_gen (example_services ''google'' (\<lambda>c. Returns (Text ''hello'')) {})
      ''write a poem'' None None (example_table ''gemini'' 1 10)) = []
   \<and> summaries (llm_text_gen (example_services ''google'' (\<lambda>c. Returns (Text ''hello'')) {})
      ''write a poem'' None None (example_table ''gemini'' 1 10)) = example_table ''gemini'' 1 10
   \<and> returned (llm_text_gen
        ((example_services [] (\<lambda>c. Returns (Text ''hello'')) {})\<lparr>api_key_manager := (\<lambda>k. False)\<rparr>)
        ''write a poem'' None (Some ''u1'') (example_table ''gemini'' 1 10))
       = Inl (RuntimeError no_keys_message)
   \<and> summaries (llm_text_gen
        ((example_services [] (\<lambda>c. Returns (Text ''hello'')) {})\<lparr>api_key_manager := (\<lambda>k. False)\<rparr>)
        ''write a poem'' None (Some ''u1'') (example_table ''gemini'' 1 10))
       = example_table ''gemini'' 1 10"
proof -
  have r1: "returned (llm_text_gen (example_services ''google'' (\<lambda>c. Returns (Text ''hello'')) {})
      ''write a poem'' None None (example_table ''gemini'' 1 10)) = Inl user_id_required"
    by code_simp
  have av: "available_providers
      ((example_services [] (\<lambda>c. Returns (Text ''hello'')) {})\<lparr>api_key_manager := (\<lambda>k. False)\<rparr>) = []"
    by (simp add: available_providers_def example_services_def)
  have r2: "returned (llm_text_gen
        ((example_services [] (\<lambda>c. Returns (Text ''hello'')) {})\<lparr>api_key_manager := (\<lambda>k. False)\<rparr>)
        ''write a poem'' None (Some ''u1'') (example_table ''gemini'' 1 10))
       = Inl (RuntimeError no_keys_message)"
    by code_simp
  from configuration_error_before_any_work[of _ None "''write a poem''" None
      "example_table ''gemini'' 1 10"]
    configuration_error_before_any_work[of _ "Some ''u1''" "''write a poem''" None
      "example_table ''gemini'' 1 10", OF disjI1, OF av] r1 r2
  show ?thesis by simp
qed


subsection \<open>Denial by the quota guard\<close>

lemma check_usage_limits_spec_denies:
  assumes "(0 < token_limit_of (L uid) (provider_value pe)
            \<and> token_limit_of (L uid) (provider_value pe)
                < stored_tokens db (uid, per uid) (provider_value pe) + n)
         \<or> (0 < call_limit_of (L uid) (provider_value pe)
            \<and> call_limit_of (L uid) (provider_value pe)
                < stored_calls db (uid, per uid) (provider_value pe) + 1)"
  shows "\<not> fst (check_usage_limits_spec L per db uid pe n a)"
  using assms by (auto simp add: check_usage_limits_spec_def Let_def)

text \<open>
  Claim C5, amended. With the quota guard of the specification, a request whose
  estimate as the dispatcher computes it (the input estimate plus the configured maximum
  of output tokens) exceeds the remaining token allowance, or whose next call exceeds
  the call ceiling, is denied: the caller gets \<^verbatim>\<open>HTTPException(429)\<close> whose detail
  carries the message of the guard (as error and as message), the provider and the
  usage information of the guard, never a \<^verbatim>\<open>RuntimeError\<close>; the only event is the
  quota check, no provider is called and the table is unchanged.
\<close>

theorem quota_denial_before_provider_call:
  assumes sel: "select_provider S = Inr (gp, m)"
    and mapped: "provider_enum_of gp = Some (pe, apn)"
    and uid: "uid \<noteq> []"
    and nofault: "SubscriptionCheckFault \<notin> faults S"
    and guard: "check_usage_limits S
                  = check_usage_limits_spec (get_user_limits S) (get_current_billing_period S)"
    and over:
      "(0 < token_limit_of (get_user_limits S uid) (provider_value pe)
          \<and> token_limit_of (get_user_limits S uid) (provider_value pe)
              < stored_tokens db (uid, get_current_billing_period S uid) (provider_value pe)
                  + estimated_total_tokens prompt)
       \<or> (0 < call_limit_of (get_user_limits S uid) (provider_value pe)
          \<and> call_limit_of (get_user_limits S uid) (provider_value pe)
              < stored_calls db (uid, get_current_billing_period S uid) (provider_value pe) + 1)"
  shows "returned (llm_text_gen S prompt js (Some uid) db)
            = Inl (HTTPException 429
                     \<lparr>error = fst (snd (check_usage_limits S db uid pe (estimated_total_tokens prompt) apn)),
                      message = fst (snd (check_usage_limits S db uid pe (estimated_total_tokens prompt) apn)),
                      provider = apn,
                      usage_info = (case snd (snd (check_usage_limits S db uid pe (estimated_total_tokens prompt) apn)) of
                                      None \<Rightarrow> [] | Some u \<Rightarrow> u)\<rparr>)
       \<and> fst (snd (check_usage_limits S db uid pe (estimated_total_tokens prompt) apn)) \<noteq> []
       \<and> snd (snd (check_usage_limits S db uid pe (estimated_total_tokens prompt) apn))
            = Some [(''current_calls'',
                       stored_calls db (uid, get_current_billing_period S uid)
                         (provider_value pe)),
                    (''call_limit'', call_limit_of (get_user_limits S uid) (provider_value pe)),
                    (''current_tokens'',
                       stored_tokens db (uid, get_current_billing_period S uid)
                         (provider_value pe)),
                    (''token_limit'',
                       token_limit_of (get_user_limits S uid) (provider_value pe))]
       \<and> (\<forall>msg. returned (llm_text_gen S prompt js (Some uid) db) \<noteq> Inl (RuntimeError msg))
       \<and> events (llm_text_gen S prompt js (Some uid) db)
            = [QuotaCheck uid pe (estimated_total_tokens prompt) apn]
       \<and> provider_calls_of (events (llm_text_gen S prompt js (Some uid) db)) = []
       \<and> summaries (llm_text_gen S prompt js (Some uid) db) = db"
proof -
  have apn: "apn \<noteq> []"
    using mapped by (auto simp add: provider_enum_of_def split: if_splits)
  have denied: "\<not> fst (check_usage_limits S db uid pe (estimated_total_tokens prompt) apn)"
    unfolding guard
    by (rule check_usage_limits_spec_denies[where L="get_user_limits S"
          and per="get_current_billing_period S"]) (rule over)
  have msg: "fst (snd (check_usage_limits S db uid pe (estimated_total_tokens prompt) apn)) \<noteq> []"
    unfolding guard by (simp add: check_usage_limits_spec_def Let_def)
  have usage: "snd (snd (check_usage_limits S db uid pe (estimated_total_tokens prompt) apn))
            = Some [(''current_calls'',
                       stored_calls db (uid, get_current_billing_period S uid)
                         (provider_value pe)),
                    (''call_limit'', call_limit_of (get_user_limits S uid) (provider_value pe)),
                    (''current_tokens'',
                       stored_tokens db (uid, get_current_billing_period S uid)
                         (provider_value pe)),
                    (''token_limit'',
                       token_limit_of (get_user_limits S uid) (provider_value pe))]"
    unfolding guard by (simp add: check_usage_limits_spec_def Let_def)
  have out: "llm_text_gen S prompt js (Some uid) db =
      raises (HTTPException 429
                \<lparr>error = fst (snd (check_usage_limits S db uid pe (estimated_total_tokens prompt) apn)),
                 message = fst (snd (check_usage_limits S db uid pe (estimated_total_tokens prompt) apn)),
                 provider = apn,
                 usage_info = (case snd (snd (check_usage_limits S db uid pe (estimated_total_tokens prompt) apn)) of
                                 None \<Rightarrow> [] | Some u \<Rightarrow> u)\<rparr>)
        [QuotaCheck uid pe (estimated_total_tokens prompt) apn] db"
    using sel mapped uid nofault denied apn
    by (simp add: llm_text_gen_def subscription_check_def Let_def case_prod_beta)
  show ?thesis
    using msg usage unfolding out by (simp add: raises_def provider_calls_of_def)
qed

text \<open>
  The plan caps gemini at 8000 tokens and nothing is used yet. For a prompt of 3000
  words the worst case of the specification is 9750 tokens, above the allowance; the
  dispatcher asks the guard about 7900, the request is admitted and the backend is
  called.
\<close>

theorem quota_denial_counterexample:
  "worst_case_total_spec (concat (replicate 3000 ''a '')) = 9750
   \<and> token_limit_of (get_user_limits roomy_services ''u1'') ''gemini'' = 8000
   \<and> stored_tokens Map.empty (''u1'', ''2026-11'') ''gemini'' = 0
   \<and> returned (llm_text_gen roomy_services (concat (replicate 3000 ''a '')) None (Some ''u1'') Map.empty) = Inr (Text ''hello'')
   \<and> provider_calls_of (events (llm_text_gen roomy_services (concat (replicate 3000 ''a '')) None (Some ''u1'') Map.empty)) = [ProviderCall gemini_text_response]"
proof -
  have e: "estimate_tokens (concat (replicate 3000 ''a '')) = 3900"
    by (simp add: estimate_tokens_replicate)
  have est: "estimated_total_tokens (concat (replicate 3000 ''a '')) = 7900"
    by (simp add: estimated_total_tokens_def e estimated_output_tokens_def max_tokens_def)
  have w: "worst_case_total_spec (concat (replicate 3000 ''a '')) = 9750"
    by (simp add: worst_case_total_spec_def e max_tokens_def)
  have lim: "token_limit_of (get_user_limits roomy_services ''u1'') ''gemini'' = 8000"
    by (simp add: roomy_services_def example_services_def roomy_limits_def token_limit_of_def)
  have old: "stored_tokens Map.empty (''u1'', ''2026-11'') ''gemini'' = 0"
    by (simp add: stored_tokens_def)
  have adm: "admitted roomy_services (concat (replicate 3000 ''a '')) ''u1'' Map.empty ''google''
      ''gemini-2.0-flash-001'' (GEMINI, ''gemini'')"
    by (simp add: admitted_def select_provider_def roomy_services_def example_services_def
        env_choice_def available_providers_def provider_enum_of_def est
        check_usage_limits_spec_def Let_def roomy_limits_def token_limit_of_def
        call_limit_of_def stored_calls_def stored_tokens_def)
  have pc: "primary_call ''google'' (truthy_struct None) ''gemini-2.0-flash-001''
      = Some gemini_text_response"
    by (simp add: primary_call_def)
  have br: "backend roomy_services gemini_text_response (concat (replicate 3000 ''a '')) None = Returns (Text ''hello'')"
    by (simp add: roomy_services_def example_services_def)
  from llm_text_gen_admitted[OF adm, of None]
    dispatch_returns[OF pc br, of "''u1''" "(GEMINI, ''gemini'')"
      "[QuotaCheck ''u1'' GEMINI (estimated_total_tokens (concat (replicate 3000 ''a ''))) ''gemini'']" Map.empty]
  have "returned (llm_text_gen roomy_services (concat (replicate 3000 ''a '')) None (Some ''u1'') Map.empty) = Inr (Text ''hello'')"
    and "provider_calls_of (events (llm_text_gen roomy_services (concat (replicate 3000 ''a '')) None (Some ''u1'') Map.empty)) = [ProviderCall gemini_text_response]"
    by (simp_all add: provider_calls_of_def)
  with w lim old show ?thesis by simp
qed

theorem quota_denial_witness:
  "select_provider guarded_services = Inr (''google'', ''gemini-2.0-flash-001'')
   \<and> token_limit_of (get_user_limits guarded_services ''u1'') ''gemini'' = 1000
   \<and> stored_tokens Map.empty (''u1'', ''2026-11'') ''gemini'' = 0
   \<and> estimated_total_tokens ''write a poem'' = 4003
   \<and> returned (llm_text_gen guarded_services ''write a poem'' None (Some ''u1'') Map.empty)
        = Inl (HTTPException 429
                 \<lparr>error = ''Token limit would be exceeded for gemini'',
                  message = ''Token limit would be exceeded for gemini'',
                  provider = ''gemini'',
                  usage_info = [(''current_calls'', 0), (''call_limit'', 0),
                                (''current_tokens'', 0), (''token_limit'', 1000)]\<rparr>)
   \<and> events (llm_text_gen guarded_services ''write a poem'' None (Some ''u1'') Map.empty)
        = [QuotaCheck ''u1'' GEMINI 4003 ''gemini'']
   \<and> summaries (llm_text_gen guarded_services ''write a poem'' None (Some ''u1'') Map.empty)
        = Map.empty"
proof -
  have sel: "select_provider guarded_services = Inr (''google'', ''gemini-2.0-flash-001'')"
    by code_simp
  have mapped: "provider_enum_of ''google'' = Some (GEMINI, ''gemini'')"
    by code_simp
  have nofault: "SubscriptionCheckFault \<notin> faults guarded_services"
    by (simp add: guarded_services_def example_services_def)
  have guard: "check_usage_limits guarded_services
      = check_usage_limits_spec (get_user_limits guarded_services)
          (get_current_billing_period guarded_services)"
    by (simp add: guarded_services_def example_services_def)
  have lim: "token_limit_of (get_user_limits guarded_services ''u1'') ''gemini'' = 1000"
    by code_simp
  have old: "stored_tokens Map.empty (''u1'', ''2026-11'') ''gemini'' = 0"
    by (simp add: stored_tokens_def)
  have per: "get_current_billing_period guarded_services ''u1'' = ''2026-11''"
    by (simp add: guarded_services_def example_services_def)
  have est: "estimated_total_tokens ''write a poem'' = 4003"
    by code_simp
  have chk: "check_usage_limits guarded_services Map.empty ''u1'' GEMINI 4003 ''gemini''
      = (False, ''Token limit would be exceeded for gemini'',
         Some [(''current_calls'', 0), (''call_limit'', 0),
               (''current_tokens'', 0), (''token_limit'', 1000)])"
    by (simp add: guarded_services_def example_services_def check_usage_limits_spec_def
        Let_def example_limits_def token_limit_of_def call_limit_of_def stored_calls_def
        stored_tokens_def)
  have over: "(0 < token_limit_of (get_user_limits guarded_services ''u1'') (provider_value GEMINI)
          \<and> token_limit_of (get_user_limits guarded_services ''u1'') (provider_value GEMINI)
              < stored_tokens Map.empty (''u1'', get_current_billing_period guarded_services ''u1'')
                  (provider_value GEMINI) + estimated_total_tokens ''write a poem'')
       \<or> (0 < call_limit_of (get_user_limits guarded_services ''u1'') (provider_value GEMINI)
          \<and> call_limit_of (get_user_limits guarded_services ''u1'') (provider_value GEMINI)
              < stored_calls Map.empty (''u1'', get_current_billing_period guarded_services ''u1'')
                  (provider_value GEMINI) + 1)"
    by (simp add: lim old per est)
  from quota_denial_before_provider_call[OF sel mapped _ nofault guard over, of None]
    sel lim old est
  show ?thesis by (simp add: chk)
qed

subsection \<open>Bounded fallback\<close>

lemma find_filter:
  "List.find P xs = (case filter P xs of [] \<Rightarrow> None | x # ys \<Rightarrow> Some x)"
  by (induction xs) simp_all

lemma fallback_call_known:
  "fb \<in> set [''google'', ''openrouter'', ''huggingface''] \<Longrightarrow>
   \<exists>c. fallback_call fb structured fm = Some c"
  by (auto simp add: fallback_call_def)

lemma fallback_providers_known:
  "fallback_providers S gp = fb # rest \<Longrightarrow>
   fb \<in> set [''google'', ''openrouter'', ''huggingface''] \<and> fb \<noteq> gp
   \<and> fb \<in> set (available_providers S)"
proof -
  assume "fallback_providers S gp = fb # rest"
  then have "fb \<in> set (fallback_providers S gp)" by simp
  then have "fb \<in> {x \<in> set [''google'', ''openrouter'', ''huggingface''].
      x \<in> set (available_providers S) \<and> x \<noteq> gp}"
    unfolding fallback_providers_def set_filter .
  then show ?thesis by blast
qed

text \<open>
  Claim C6. A request makes at most two provider calls. When the primary call of an
  admitted request raises, the alternate is the first of google, openrouter,
  huggingface that has a key and is not the failed provider: if there is none the
  request fails with the all-providers-failed error after the one call; otherwise that
  alternate is called once, and if it raises too the request fails with the same error;
  in both failures the table is unchanged.
\<close>

theorem at_most_one_fallback:
  "length (provider_calls_of (events (llm_text_gen S prompt js user_id db))) \<le> 2
   \<and> (admitted S prompt uid db gp m mapped
        \<and> primary_call gp (truthy_struct js) m = Some c
        \<and> backend S c prompt js = Raises
      \<longrightarrow> (case List.find (\<lambda>p. p \<in> set (available_providers S) \<and> p \<noteq> gp)
                   [''google'', ''openrouter'', ''huggingface''] of
             None \<Rightarrow>
               returned (llm_text_gen S prompt js (Some uid) db) = Inl all_failed
               \<and> provider_calls_of (events (llm_text_gen S prompt js (Some uid) db))
                   = [ProviderCall c]
               \<and> summaries (llm_text_gen S prompt js (Some uid) db) = db
           | Some fb \<Rightarrow>
               (\<exists>c'. fallback_call fb (truthy_struct js)
                        (snd (snd (fallback_mapping S fb mapped))) = Some c'
                  \<and> provider_calls_of (events (llm_text_gen S prompt js (Some uid) db))
                      = [ProviderCall c, ProviderCall c']
                  \<and> (backend S c' prompt js = Raises
                      \<longrightarrow> returned (llm_text_gen S prompt js (Some uid) db) = Inl all_failed
                          \<and> summaries (llm_text_gen S prompt js (Some uid) db) = db))))"
proof (intro conjI impI)
  from llm_text_gen_events[of S prompt js user_id db]
  show "length (provider_calls_of (events (llm_text_gen S prompt js user_id db))) \<le> 2"
    by (auto simp add: provider_calls_of_def filter_map comp_def)
next
  assume h: "admitted S prompt uid db gp m mapped
        \<and> primary_call gp (truthy_struct js) m = Some c
        \<and> backend S c prompt js = Raises"
  let ?q = "QuotaCheck uid (fst mapped) (estimated_total_tokens prompt) (snd mapped)"
  let ?out = "llm_text_gen S prompt js (Some uid) db"
  from h have a: "admitted S prompt uid db gp m mapped"
    and pc: "primary_call gp (truthy_struct js) m = Some c"
    and br: "backend S c prompt js = Raises"
    by simp_all
  have out: "?out = fallback_attempt S prompt js uid gp mapped [?q, ProviderCall c] db"
    using llm_text_gen_admitted[OF a, of js] dispatch_raises[OF pc br, of uid mapped "[?q]" db]
    by simp
  show "case List.find (\<lambda>p. p \<in> set (available_providers S) \<and> p \<noteq> gp)
                   [''google'', ''openrouter'', ''huggingface''] of
             None \<Rightarrow>
               returned ?out = Inl all_failed
               \<and> provider_calls_of (events ?out) = [ProviderCall c]
               \<and> summaries ?out = db
           | Some fb \<Rightarrow>
               (\<exists>c'. fallback_call fb (truthy_struct js)
                        (snd (snd (fallback_mapping S fb mapped))) = Some c'
                  \<and> provider_calls_of (events ?out) = [ProviderCall c, ProviderCall c']
                  \<and> (backend S c' prompt js = Raises
                      \<longrightarrow> returned ?out = Inl all_failed \<and> summaries ?out = db))"
  proof (cases "fallback_providers S gp")
    case Nil
    then have "List.find (\<lambda>p. p \<in> set (available_providers S) \<and> p \<noteq> gp)
        [''google'', ''openrouter'', ''huggingface''] = None"
      unfolding find_filter fallback_providers_def by simp
    moreover from Nil have "?out = raises all_failed [?q, ProviderCall c] db"
      unfolding out by (rule fallback_attempt_none)
    ultimately show ?thesis
      by (simp add: raises_def provider_calls_of_def)
  next
    case (Cons fb rest)
    then have f: "List.find (\<lambda>p. p \<in> set (available_providers S) \<and> p \<noteq> gp)
        [''google'', ''openrouter'', ''huggingface''] = Some fb"
      unfolding find_filter fallback_providers_def by simp
    from fallback_providers_known[OF Cons] fallback_call_known obtain c' where
      c': "fallback_call fb (truthy_struct js) (snd (snd (fallback_mapping S fb mapped)))
             = Some c'"
      by blast
    have ev: "provider_calls_of (events ?out) = [ProviderCall c, ProviderCall c']"
    proof (cases "backend S c' prompt js")
      case Raises
      then show ?thesis
        unfolding out fallback_attempt_raises[OF Cons c' Raises]
        by (simp add: raises_def provider_calls_of_def)
    next
      case (Returns r)
      then show ?thesis
        unfolding out fallback_attempt_returns[OF Cons c' Returns]
        by (simp add: provider_calls_of_def)
    qed
    have fail: "backend S c' prompt js = Raises
        \<longrightarrow> returned ?out = Inl all_failed \<and> summaries ?out = db"
    proof
      assume r: "backend S c' prompt js = Raises"
      show "returned ?out = Inl all_failed \<and> summaries ?out = db"
        unfolding out fallback_attempt_raises[OF Cons c' r] by (simp add: raises_def)
    qed
    from f c' ev fail show ?thesis by simp
  qed
qed

theorem at_most_one_fallback_witness:
  "admitted (example_services ''google'' (\<lambda>c. Raises) {}) ''write a poem'' ''u1'' Map.empty
     ''google'' ''gemini-2.0-flash-001'' (GEMINI, ''gemini'')
   \<and> List.find (\<lambda>p. p \<in> set (available_providers (example_services ''google'' (\<lambda>c. Raises) {}))
                  \<and> p \<noteq> ''google'') [''google'', ''openrouter'', ''huggingface'']
       = Some ''openrouter''
   \<and> provider_calls_of (events (llm_text_gen (example_services ''google'' (\<lambda>c. Raises) {})
        ''write a poem'' None (Some ''u1'') Map.empty))
       = [ProviderCall gemini_text_response,
          ProviderCall (openrouter_text_response ''openai/gpt-4-turbo'')]
   \<and> returned (llm_text_gen (example_services ''google'' (\<lambda>c. Raises) {})
        ''write a poem'' None (Some ''u1'') Map.empty) = Inl all_failed
   \<and> summaries (llm_text_gen (example_services ''google'' (\<lambda>c. Raises) {})
        ''write a poem'' None (Some ''u1'') Map.empty) = Map.empty"
proof -
  let ?S = "example_services ''google'' (\<lambda>c. Raises) {}"
  have adm: "admitted ?S ''write a poem'' ''u1'' Map.empty
     ''google'' ''gemini-2.0-flash-001'' (GEMINI, ''gemini'')"
    by (simp add: admitted_def select_provider_def example_services_def env_choice_def
        available_providers_def provider_enum_of_def)
  have pc: "primary_call ''google'' (truthy_struct None) ''gemini-2.0-flash-001''
      = Some gemini_text_response"
    by (simp add: primary_call_def)
  have br: "backend ?S gemini_text_response ''write a poem'' None = Raises"
    by (simp add: example_services_def)
  have f: "List.find (\<lambda>p. p \<in> set (available_providers ?S) \<and> p \<noteq> ''google'')
      [''google'', ''openrouter'', ''huggingface''] = Some ''openrouter''"
    by (simp add: available_providers_def example_services_def)
  have fc: "fallback_call ''openrouter'' (truthy_struct None)
      (snd (snd (fallback_mapping ?S ''openrouter'' (GEMINI, ''gemini''))))
      = Some (openrouter_text_response ''openai/gpt-4-turbo'')"
    by (simp add: fallback_call_def fallback_mapping_def example_services_def)
  have fr: "backend ?S (openrouter_text_response ''openai/gpt-4-turbo'') ''write a poem'' None
      = Raises"
    by (simp add: example_services_def)
  from at_most_one_fallback[of ?S "''write a poem''" None "Some ''u1''" Map.empty "''u1''"
      "''google''" "''gemini-2.0-flash-001''" "(GEMINI, ''gemini'')" gemini_text_response]
    adm pc br
  have "\<exists>c'. fallback_call ''openrouter'' (truthy_struct None)
            (snd (snd (fallback_mapping ?S ''openrouter'' (GEMINI, ''gemini'')))) = Some c'
        \<and> provider_calls_of (events (llm_text_gen ?S ''write a poem'' None (Some ''u1'')
              Map.empty)) = [ProviderCall gemini_text_response, ProviderCall c']
        \<and> (backend ?S c' ''write a poem'' None = Raises
             \<longrightarrow> returned (llm_text_gen ?S ''write a poem'' None (Some ''u1'') Map.empty)
                   = Inl all_failed
                 \<and> summaries (llm_text_gen ?S ''write a poem'' None (Some ''u1'') Map.empty)
                   = Map.empty)"
    unfolding f by simp
  with fc fr adm f show ?thesis
    by auto
qed

subsection \<open>Requests that are served\<close>

lemma track_effect_cost:
  assumes "recorded fb S u pe m p r db"
  shows "stored_cost (fst (track fb S u pe m p r db)) (u, get_current_billing_period S u)
           (provider_value pe)
         = stored_cost db (u, get_current_billing_period S u) (provider_value pe)
           + max 0 (snd (snd (snd (if fb then fallback_values S u pe m p r db
                                    else primary_values S u pe m p r db))))"
  using assms
  by (cases fb)
     (simp_all add: track_recorded stored_cost_record_usage stored_cost_record_fallback_usage
        max_def)

lemma served_primary:
  assumes "admitted S prompt uid db gp m mapped"
    and "primary_call gp (truthy_struct js) m = Some c"
    and "backend S c prompt js = Returns r" and "truthy r"
  shows "llm_text_gen S prompt js (Some uid) db =
     \<lparr>returned = Inr r,
      events = [QuotaCheck uid (fst mapped) (estimated_total_tokens prompt) (snd mapped),
                ProviderCall c],
      summaries = fst (track False S uid (fst mapped) m prompt r db),
      ledger_log = snd (track False S uid (fst mapped) m prompt r db)\<rparr>"
  using assms by (simp add: llm_text_gen_admitted dispatch_returns)

lemma served_fallback:
  assumes "admitted S prompt uid db gp m mapped"
    and "primary_call gp (truthy_struct js) m = Some c"
    and "backend S c prompt js = Raises"
    and "fallback_providers S gp = fb # rest"
    and "fallback_mapping S fb mapped = (pe', apn', fm)"
    and "fallback_call fb (truthy_struct js) fm = Some c'"
    and "backend S c' prompt js = Returns r" and "truthy r"
  shows "llm_text_gen S prompt js (Some uid) db =
     \<lparr>returned = Inr r,
      events = [QuotaCheck uid (fst mapped) (estimated_total_tokens prompt) (snd mapped),
                ProviderCall c, ProviderCall c'],
      summaries = fst (track True S uid pe' fm prompt r db),
      ledger_log = snd (track True S uid pe' fm prompt r db)\<rparr>"
proof -
  have "llm_text_gen S prompt js (Some uid) db =
      fallback_attempt S prompt js uid gp mapped
        ([QuotaCheck uid (fst mapped) (estimated_total_tokens prompt) (snd mapped)]
           @ [ProviderCall c]) db"
    using assms(1-3) by (simp add: llm_text_gen_admitted dispatch_raises)
  also have "\<dots> = \<lparr>returned = Inr r,
      events = [QuotaCheck uid (fst mapped) (estimated_total_tokens prompt) (snd mapped),
                ProviderCall c, ProviderCall c'],
      summaries = fst (track True S uid pe' fm prompt r db),
      ledger_log = snd (track True S uid pe' fm prompt r db)\<rparr>"
    using fallback_attempt_returns[of S gp fb rest js mapped c' prompt r uid _ db] assms(4-8)
    by simp
  finally show ?thesis .
qed

lemma fallback_name_differs:
  assumes "provider_enum_of gp = Some mapped"
    and "fallback_providers S gp = fb # rest"
    and "fallback_mapping S fb mapped = (pe', apn', fm)"
  shows "provider_value pe' \<noteq> provider_value (fst mapped)"
proof -
  from fallback_providers_known[OF assms(2)]
  have "fb \<in> set [''google'', ''openrouter'', ''huggingface'']" "fb \<noteq> gp" by simp_all
  with assms(1,3) show ?thesis
    by (auto simp add: provider_enum_of_def fallback_mapping_def split: if_splits)
qed



text \<open>
  Claim C9. After the primary provider raised and the fallback returned a response,
  the counters of the primary provider (calls, tokens, cost) are unchanged, as are
  those of every provider other than the fallback; when the accounting is recorded the
  fallback provider has one call more, the tokens of the safety check and the cost of
  the call.
\<close>

theorem fallback_usage_attributed_to_fallback:
  assumes adm: "admitted S prompt uid db gp m mapped"
    and pc: "primary_call gp (truthy_struct js) m = Some c"
    and br: "backend S c prompt js = Raises"
    and fbs: "fallback_providers S gp = fb # rest"
    and fm: "fallback_mapping S fb mapped = (pe', apn', fm)"
    and fc: "fallback_call fb (truthy_struct js) fm = Some c'"
    and fr: "backend S c' prompt js = Returns r" and tr: "truthy r"
  shows "returned (llm_text_gen S prompt js (Some uid) db) = Inr r
     \<and> provider_value pe' \<noteq> provider_value (fst mapped)
     \<and> (\<forall>key. stored_calls (summaries (llm_text_gen S prompt js (Some uid) db)) key
                 (provider_value (fst mapped))
               = stored_calls db key (provider_value (fst mapped))
             \<and> stored_tokens (summaries (llm_text_gen S prompt js (Some uid) db)) key
                 (provider_value (fst mapped))
               = stored_tokens db key (provider_value (fst mapped))
             \<and> stored_cost (summaries (llm_text_gen S prompt js (Some uid) db)) key
                 (provider_value (fst mapped))
               = stored_cost db key (provider_value (fst mapped)))
     \<and> (\<forall>key name. name \<noteq> provider_value pe' \<longrightarrow>
             stored_calls (summaries (llm_text_gen S prompt js (Some uid) db)) key name
               = stored_calls db key name
           \<and> stored_tokens (summaries (llm_text_gen S prompt js (Some uid) db)) key name
               = stored_tokens db key name
           \<and> stored_cost (summaries (llm_text_gen S prompt js (Some uid) db)) key name
               = stored_cost db key name)
     \<and> (recorded True S uid pe' fm prompt r db \<longrightarrow>
           stored_calls (summaries (llm_text_gen S prompt js (Some uid) db))
               (uid, get_current_billing_period S uid) (provider_value pe')
             = stored_calls db (uid, get_current_billing_period S uid) (provider_value pe') + 1
         \<and> stored_tokens (summaries (llm_text_gen S prompt js (Some uid) db))
               (uid, get_current_billing_period S uid) (provider_value pe')
             = fst (safety_check (token_limit_of (get_user_limits S uid) (provider_value pe'))
                      (stored_tokens db (uid, get_current_billing_period S uid)
                         (provider_value pe'))
                      (estimate_tokens prompt + estimate_tokens (str_of r)))
         \<and> stored_cost (summaries (llm_text_gen S prompt js (Some uid) db))
               (uid, get_current_billing_period S uid) (provider_value pe')
             = stored_cost db (uid, get_current_billing_period S uid) (provider_value pe')
               + max 0 (snd (snd (snd (fallback_values S uid pe' fm prompt r db)))))"
proof -
  note out = served_fallback[OF adm pc br fbs fm fc fr tr]
  from adm have pm: "provider_enum_of gp = Some mapped" by (simp add: admitted_def)
  note diff = fallback_name_differs[OF pm fbs fm]
  have frame: "\<And>key name. name \<noteq> provider_value pe' \<Longrightarrow>
             stored_calls (summaries (llm_text_gen S prompt js (Some uid) db)) key name
               = stored_calls db key name
           \<and> stored_tokens (summaries (llm_text_gen S prompt js (Some uid) db)) key name
               = stored_tokens db key name
           \<and> stored_cost (summaries (llm_text_gen S prompt js (Some uid) db)) key name
               = stored_cost db key name"
    unfolding out by (simp add: track_frame)
  have eff: "recorded True S uid pe' fm prompt r db \<longrightarrow>
           stored_calls (summaries (llm_text_gen S prompt js (Some uid) db))
               (uid, get_current_billing_period S uid) (provider_value pe')
             = stored_calls db (uid, get_current_billing_period S uid) (provider_value pe') + 1
         \<and> stored_tokens (summaries (llm_text_gen S prompt js (Some uid) db))
               (uid, get_current_billing_period S uid) (provider_value pe')
             = fst (safety_check (token_limit_of (get_user_limits S uid) (provider_value pe'))
                      (stored_tokens db (uid, get_current_billing_period S uid)
                         (provider_value pe'))
                      (estimate_tokens prompt + estimate_tokens (str_of r)))
         \<and> stored_cost (summaries (llm_text_gen S prompt js (Some uid) db))
               (uid, get_current_billing_period S uid) (provider_value pe')
             = stored_cost db (uid, get_current_billing_period S uid) (provider_value pe')
               + max 0 (snd (snd (snd (fallback_values S uid pe' fm prompt r db))))"
    unfolding out
    by (simp add: track_effect(1,2) track_effect_cost token_tracked_def
        tracks_tokens_fallback_all)
  from diff have diff': "provider_value (fst mapped) \<noteq> provider_value pe'" by simp
  show ?thesis
    using frame[OF diff'] frame eff diff
    by (simp add: out)
qed

theorem fallback_usage_witness:
  "admitted (example_services ''google'' (only_answers ''openrouter'' (Text ''hello there world'')) {})
       ''write a poem'' ''u1'' (example_table ''gemini'' 3 980)
       ''google'' ''gemini-2.0-flash-001'' (GEMINI, ''gemini'')
   \<and> returned (llm_text_gen
        (example_services ''google'' (only_answers ''openrouter'' (Text ''hello there world'')) {})
        ''write a poem'' None (Some ''u1'') (example_table ''gemini'' 3 980))
       = Inr (Text ''hello there world'')
   \<and> stored_calls (summaries (llm_text_gen
        (example_services ''google'' (only_answers ''openrouter'' (Text ''hello there world'')) {})
        ''write a poem'' None (Some ''u1'') (example_table ''gemini'' 3 980)))
        (''u1'', ''2026-11'') ''gemini'' = 3
   \<and> stored_tokens (summaries (llm_text_gen
        (example_services ''google'' (only_answers ''openrouter'' (Text ''hello there world'')) {})
        ''write a poem'' None (Some ''u1'') (example_table ''gemini'' 3 980)))
        (''u1'', ''2026-11'') ''gemini'' = 980
   \<and> stored_calls (summaries (llm_text_gen
        (example_services ''google'' (only_answers ''openrouter'' (Text ''hello there world'')) {})
        ''write a poem'' None (Some ''u1'') (example_table ''gemini'' 3 980)))
        (''u1'', ''2026-11'') ''openrouter'' = 1
   \<and> stored_tokens (summaries (llm_text_gen
        (example_services ''google'' (only_answers ''openrouter'' (Text ''hello there world'')) {})
        ''write a poem'' None (Some ''u1'') (example_table ''gemini'' 3 980)))
        (''u1'', ''2026-11'') ''openrouter'' = 6"
proof -
  let ?S = "example_services ''google''
      (only_answers ''openrouter'' (Text ''hello there world'')) {}"
  let ?db = "example_table ''gemini'' 3 980"
  have adm: "admitted ?S ''write a poem'' ''u1'' ?db
     ''google'' ''gemini-2.0-flash-001'' (GEMINI, ''gemini'')"
    by (simp add: admitted_def select_provider_def example_services_def env_choice_def
        available_providers_def provider_enum_of_def)
  have pc: "primary_call ''google'' (truthy_struct None) ''gemini-2.0-flash-001''
      = Some gemini_text_response"
    by (simp add: primary_call_def)
  have br: "backend ?S gemini_text_response ''write a poem'' None = Raises"
    by (simp add: example_services_def only_answers_def)
  have fbs: "fallback_providers ?S ''google'' = [''openrouter'', ''huggingface'']"
    by (simp add: fallback_providers_def available_providers_def example_services_def)
  have fm: "fallback_mapping ?S ''openrouter'' (GEMINI, ''gemini'')
      = (OPENROUTER, ''openrouter'', ''openai/gpt-4-turbo'')"
    by (simp add: fallback_mapping_def example_services_def)
  have fc: "fallback_call ''openrouter'' (truthy_struct None) ''openai/gpt-4-turbo''
      = Some (openrouter_text_response ''openai/gpt-4-turbo'')"
    by (simp add: fallback_call_def)
  have fr: "backend ?S (openrouter_text_response ''openai/gpt-4-turbo'') ''write a poem'' None
      = Returns (Text ''hello there world'')"
    by (simp add: example_services_def only_answers_def)
  have tr: "truthy (Text ''hello there world'')" by simp
  have rec: "recorded True ?S ''u1'' OPENROUTER ''openai/gpt-4-turbo'' ''write a poem''
      (Text ''hello there world'') ?db"
    by (rule example_recorded)
  have per: "get_current_billing_period ?S ''u1'' = ''2026-11''"
    by (simp add: example_services_def)
  have old: "stored_calls ?db (''u1'', ''2026-11'') ''gemini'' = 3"
    "stored_tokens ?db (''u1'', ''2026-11'') ''gemini'' = 980"
    "stored_calls ?db (''u1'', ''2026-11'') ''openrouter'' = 0"
    "stored_tokens ?db (''u1'', ''2026-11'') ''openrouter'' = 0"
    by (simp_all add: stored_calls_def stored_tokens_def example_table_def new_summary_def)
  have sc: "fst (safety_check (token_limit_of (get_user_limits ?S ''u1'') ''openrouter'') 0
      (estimate_tokens ''write a poem'' + estimate_tokens ''hello there world'')) = 6"
    by code_simp
  from fallback_usage_attributed_to_fallback[OF adm pc br fbs fm fc fr tr] rec adm
  show ?thesis
    by (simp add: per old sc)
qed

subsection \<open>Hugging Face is accounted as Mistral\<close>

lemma track_mistral:
  "(\<forall>key name. name \<noteq> ''mistral'' \<longrightarrow>
       stored_calls (fst (track fb S uid MISTRAL model prompt r db)) key name
         = stored_calls db key name
     \<and> stored_tokens (fst (track fb S uid MISTRAL model prompt r db)) key name
         = stored_tokens db key name
     \<and> stored_cost (fst (track fb S uid MISTRAL model prompt r db)) key name
         = stored_cost db key name)
   \<and> (recorded fb S uid MISTRAL model prompt r db \<longrightarrow>
         stored_calls (fst (track fb S uid MISTRAL model prompt r db))
             (uid, get_current_billing_period S uid) ''mistral''
           = stored_calls db (uid, get_current_billing_period S uid) ''mistral'' + 1
       \<and> stored_tokens (fst (track fb S uid MISTRAL model prompt r db))
             (uid, get_current_billing_period S uid) ''mistral''
           = fst (safety_check (token_limit_of (get_user_limits S uid) ''mistral'')
                    (stored_tokens db (uid, get_current_billing_period S uid) ''mistral'')
                    (estimate_tokens prompt + estimate_tokens (str_of r)))
       \<and> stored_cost (fst (track fb S uid MISTRAL model prompt r db))
             (uid, get_current_billing_period S uid) ''mistral''
           = stored_cost db (uid, get_current_billing_period S uid) ''mistral''
             + max 0 (snd (snd (snd (if fb then fallback_values S uid MISTRAL model prompt r db
                                      else primary_values S uid MISTRAL model prompt r db)))))"
proof -
  have tt: "token_tracked fb MISTRAL"
    by (simp add: token_tracked_def tracks_tokens_def tracks_tokens_fallback_def)
  show ?thesis
    using track_effect(1)[of fb S uid MISTRAL model prompt r db]
      track_effect(2)[of fb S uid MISTRAL model prompt r db]
      track_effect_cost[of fb S uid MISTRAL model prompt r db]
      track_frame[of _ MISTRAL fb S uid model prompt r db] tt
    by simp
qed

text \<open>
  Claim C10, amended. When the selected provider is huggingface, the quota check is
  made for the enum member \<^verbatim>\<open>MISTRAL\<close>. When huggingface serves the request, as the
  selected provider or as the fallback after another provider raised, the accounting
  touches no counter named otherwise than \<^verbatim>\<open>mistral\<close> (none named huggingface), and
  when it is recorded \<^verbatim>\<open>mistral_calls\<close> has one call more, \<^verbatim>\<open>mistral_tokens\<close> the
  tokens of the safety check against the ceiling \<^verbatim>\<open>mistral_tokens\<close> of the plan, and
  \<^verbatim>\<open>mistral_cost\<close> the cost of the call. A request served by huggingface as the
  fallback has had its one quota check made for the provider that failed, whose enum
  member is not \<^verbatim>\<open>MISTRAL\<close>.
\<close>

theorem huggingface_accounts_on_mistral:
  "(select_provider S = Inr (''huggingface'', m) \<and> uid \<noteq> []
      \<and> SubscriptionCheckFault \<notin> faults S
     \<longrightarrow> (\<exists>rest. events (llm_text_gen S prompt js (Some uid) db)
            = QuotaCheck uid MISTRAL (estimated_total_tokens prompt) ''huggingface'' # rest))
   \<and> (admitted S prompt uid db ''huggingface'' m mapped
        \<and> primary_call ''huggingface'' (truthy_struct js) m = Some c
        \<and> backend S c prompt js = Returns r \<and> truthy r
     \<longrightarrow> returned (llm_text_gen S prompt js (Some uid) db) = Inr r
         \<and> events (llm_text_gen S prompt js (Some uid) db)
             = [QuotaCheck uid MISTRAL (estimated_total_tokens prompt) ''huggingface'',
                ProviderCall c]
         \<and> (\<forall>key name. name \<noteq> ''mistral'' \<longrightarrow>
               stored_calls (summaries (llm_text_gen S prompt js (Some uid) db)) key name
                 = stored_calls db key name
             \<and> stored_tokens (summaries (llm_text_gen S prompt js (Some uid) db)) key name
                 = stored_tokens db key name
             \<and> stored_cost (summaries (llm_text_gen S prompt js (Some uid) db)) key name
                 = stored_cost db key name)
         \<and> (recorded False S uid MISTRAL m prompt r db \<longrightarrow>
               stored_calls (summaries (llm_text_gen S prompt js (Some uid) db))
                   (uid, get_current_billing_period S uid) ''mistral''
                 = stored_calls db (uid, get_current_billing_period S uid) ''mistral'' + 1
             \<and> stored_tokens (summaries (llm_text_gen S prompt js (Some uid) db))
                   (uid, get_current_billing_period S uid) ''mistral''
                 = fst (safety_check (token_limit_of (get_user_limits S uid) ''mistral'')
                          (stored_tokens db (uid, get_current_billing_period S uid) ''mistral'')
                          (estimate_tokens prompt + estimate_tokens (str_of r)))
             \<and> stored_cost (summaries (llm_text_gen S prompt js (Some uid) db))
                   (uid, get_current_billing_period S uid) ''mistral''
                 = stored_cost db (uid, get_current_billing_period S uid) ''mistral''
                   + max 0 (snd (snd (snd (primary_values S uid MISTRAL m prompt r db))))))
   \<and> (admitted S prompt uid db gp m mapped
        \<and> primary_call gp (truthy_struct js) m = Some c
        \<and> backend S c prompt js = Raises
        \<and> fallback_providers S gp = ''huggingface'' # others
        \<and> fallback_call ''huggingface'' (truthy_struct js) ''openai/gpt-oss-120b:groq''
            = Some c'
        \<and> backend S c' prompt js = Returns r \<and> truthy r
     \<longrightarrow> returned (llm_text_gen S prompt js (Some uid) db) = Inr r
         \<and> events (llm_text_gen S prompt js (Some uid) db)
             = [QuotaCheck uid (fst mapped) (estimated_total_tokens prompt) (snd mapped),
                ProviderCall c, ProviderCall c']
         \<and> fst mapped \<noteq> MISTRAL
         \<and> (\<forall>key name. name \<noteq> ''mistral'' \<longrightarrow>
               stored_calls (summaries (llm_text_gen S prompt js (Some uid) db)) key name
                 = stored_calls db key name
             \<and> stored_tokens (summaries (llm_text_gen S prompt js (Some uid) db)) key name
                 = stored_tokens db key name
             \<and> stored_cost (summaries (llm_text_gen S prompt js (Some uid) db)) key name
                 = stored_cost db key name)
         \<and> (recorded True S uid MISTRAL ''openai/gpt-oss-120b:groq'' prompt r db \<longrightarrow>
               stored_calls (summaries (llm_text_gen S prompt js (Some uid) db))
                   (uid, get_current_billing_period S uid) ''mistral''
                 = stored_calls db (uid, get_current_billing_period S uid) ''mistral'' + 1
             \<and> stored_tokens (summaries (llm_text_gen S prompt js (Some uid) db))
                   (uid, get_current_billing_period S uid) ''mistral''
                 = fst (safety_check (token_limit_of (get_user_limits S uid) ''mistral'')
                          (stored_tokens db (uid, get_current_billing_period S uid) ''mistral'')
                          (estimate_tokens prompt + estimate_tokens (str_of r)))
             \<and> stored_cost (summaries (llm_text_gen S prompt js (Some uid) db))
                   (uid, get_current_billing_period S uid) ''mistral''
                 = stored_cost db (uid, get_current_billing_period S uid) ''mistral''
                   + max 0 (snd (snd (snd (fallback_values S uid MISTRAL ''openai/gpt-oss-120b:groq'' prompt r db))))))"
  (is "(?H1 \<longrightarrow> ?C1) \<and> (?H2 \<longrightarrow> ?C2) \<and> (?H3 \<longrightarrow> ?C3)")
proof (intro conjI)
  show "?H1 \<longrightarrow> ?C1"
  proof
    assume h: ?H1
    have pm: "provider_enum_of ''huggingface'' = Some (MISTRAL, ''huggingface'')"
      by (simp add: provider_enum_of_def)
    from h pm have eq: "llm_text_gen S prompt js (Some uid) db
        = subscription_check S prompt js uid ''huggingface'' m (MISTRAL, ''huggingface'') db"
      by (simp add: llm_text_gen_def)
    show ?C1
    proof (cases "fst (check_usage_limits S db uid MISTRAL (estimated_total_tokens prompt)
        ''huggingface'')")
      case True
      from dispatch_events[of S prompt js uid "''huggingface''" m "(MISTRAL, ''huggingface'')"
          "[QuotaCheck uid MISTRAL (estimated_total_tokens prompt) ''huggingface'']" db]
      obtain cs where "events (dispatch S prompt js uid ''huggingface'' m
          (MISTRAL, ''huggingface'')
          [QuotaCheck uid MISTRAL (estimated_total_tokens prompt) ''huggingface''] db)
        = [QuotaCheck uid MISTRAL (estimated_total_tokens prompt) ''huggingface'']
            @ map ProviderCall cs"
        by blast
      with h True show ?thesis
        unfolding eq
        by (cases "UsageQueryFault \<in> faults S")
           (simp_all add: subscription_check_def Let_def case_prod_beta raises_def)
    next
      case False
      with h show ?thesis
        unfolding eq by (simp add: subscription_check_def Let_def case_prod_beta raises_def)
    qed
  qed
next
  show "?H2 \<longrightarrow> ?C2"
  proof
    assume h: ?H2
    then have adm: "admitted S prompt uid db ''huggingface'' m mapped"
      and pc: "primary_call ''huggingface'' (truthy_struct js) m = Some c"
      and br: "backend S c prompt js = Returns r" and tr: "truthy r"
      by simp_all
    from adm have mapped: "mapped = (MISTRAL, ''huggingface'')"
      by (simp add: admitted_def provider_enum_of_def)
    note out = served_primary[OF adm pc br tr, unfolded mapped fst_conv snd_conv]
    show ?C2
      unfolding out using track_mistral[of False S uid m prompt r db] by simp
  qed
next
  show "?H3 \<longrightarrow> ?C3"
  proof
    assume h: ?H3
    then have adm: "admitted S prompt uid db gp m mapped"
      and pc: "primary_call gp (truthy_struct js) m = Some c"
      and br: "backend S c prompt js = Raises"
      and fbs: "fallback_providers S gp = ''huggingface'' # others"
      and fc: "fallback_call ''huggingface'' (truthy_struct js) ''openai/gpt-oss-120b:groq''
            = Some c'"
      and fr: "backend S c' prompt js = Returns r" and tr: "truthy r"
      by simp_all
    have fm: "fallback_mapping S ''huggingface'' mapped
        = (MISTRAL, ''huggingface'', ''openai/gpt-oss-120b:groq'')"
      by (simp add: fallback_mapping_def)
    from adm have pm: "provider_enum_of gp = Some mapped" by (simp add: admitted_def)
    from fallback_name_differs[OF pm fbs fm] have nm: "fst mapped \<noteq> MISTRAL"
      by auto
    note out = served_fallback[OF adm pc br fbs fm fc fr tr]
    show ?C3
      unfolding out
      using track_mistral[of True S uid "''openai/gpt-oss-120b:groq''" prompt r db] nm by simp
  qed
qed

text \<open>
  Google is selected and raises, huggingface is the only other provider with a key and
  serves the request: the one quota check was made for \<^verbatim>\<open>GEMINI\<close>.
\<close>

theorem huggingface_fallback_counterexample:
  "returned (llm_text_gen
       ((example_services ''google'' (only_answers ''huggingface'' (Text ''hello there world'')) {})
          \<lparr>api_key_manager := (\<lambda>k. k \<noteq> ''openrouter'')\<rparr>)
       ''write a poem'' None (Some ''u1'') Map.empty) = Inr (Text ''hello there world'')
   \<and> events (llm_text_gen
       ((example_services ''google'' (only_answers ''huggingface'' (Text ''hello there world'')) {})
          \<lparr>api_key_manager := (\<lambda>k. k \<noteq> ''openrouter'')\<rparr>)
       ''write a poem'' None (Some ''u1'') Map.empty)
     = [QuotaCheck ''u1'' GEMINI 4003 ''gemini'', ProviderCall gemini_text_response,
        ProviderCall (huggingface_text_response ''openai/gpt-oss-120b:groq'')]
   \<and> stored_calls (summaries (llm_text_gen
       ((example_services ''google'' (only_answers ''huggingface'' (Text ''hello there world'')) {})
          \<lparr>api_key_manager := (\<lambda>k. k \<noteq> ''openrouter'')\<rparr>)
       ''write a poem'' None (Some ''u1'') Map.empty)) (''u1'', ''2026-11'') ''mistral'' = 1"
  by code_simp

theorem huggingface_witness:
  "select_provider (example_services ''hf'' (\<lambda>c. Returns (Text ''hello there world'')) {})
     = Inr (''huggingface'', ''openai/gpt-oss-120b:groq'')
   \<and> events (llm_text_gen
        (example_services ''hf'' (\<lambda>c. Returns (Text ''hello there world'')) {})
        ''write a poem'' None (Some ''u1'') Map.empty)
       = [QuotaCheck ''u1'' MISTRAL 4003 ''huggingface'',
          ProviderCall (huggingface_text_response ''openai/gpt-oss-120b:groq'')]
   \<and> stored_calls (summaries (llm_text_gen
        (example_services ''hf'' (\<lambda>c. Returns (Text ''hello there world'')) {})
        ''write a poem'' None (Some ''u1'') Map.empty)) (''u1'', ''2026-11'') ''mistral'' = 1
   \<and> stored_tokens (summaries (llm_text_gen
        (example_services ''hf'' (\<lambda>c. Returns (Text ''hello there world'')) {})
        ''write a poem'' None (Some ''u1'') Map.empty)) (''u1'', ''2026-11'') ''mistral'' = 6
   \<and> stored_cost (summaries (llm_text_gen
        (example_services ''hf'' (\<lambda>c. Returns (Text ''hello there world'')) {})
        ''write a poem'' None (Some ''u1'') Map.empty)) (''u1'', ''2026-11'') ''mistral'' = 6 / 1000
   \<and> stored_calls (summaries (llm_text_gen
        (example_services ''hf'' (\<lambda>c. Returns (Text ''hello there world'')) {})
        ''write a poem'' None (Some ''u1'') Map.empty)) (''u1'', ''2026-11'') ''huggingface'' = 0
   \<and> stored_tokens (summaries (llm_text_gen
        (example_services ''google'' (only_answers ''huggingface'' (Text ''hello there world'')) {})
        ''write a poem'' None (Some ''u1'') Map.empty)) (''u1'', ''2026-11'') ''huggingface'' = 0"
proof -
  let ?S = "example_services ''hf'' (\<lambda>c. Returns (Text ''hello there world'')) {}"
  let ?m = "''openai/gpt-oss-120b:groq''"
  have sel: "select_provider ?S = Inr (''huggingface'', ?m)"
    by (simp add: select_provider_def example_services_def env_choice_def
        available_providers_def)
  have adm: "admitted ?S ''write a poem'' ''u1'' Map.empty ''huggingface'' ?m
      (MISTRAL, ''huggingface'')"
    by (simp add: admitted_def sel provider_enum_of_def) (simp add: example_services_def)
  have pc: "primary_call ''huggingface'' (truthy_struct None) ?m
      = Some (huggingface_text_response ?m)"
    by (simp add: primary_call_def)
  have br: "backend ?S (huggingface_text_response ?m) ''write a poem'' None
      = Returns (Text ''hello there world'')"
    by (simp add: example_services_def)
  have tr: "truthy (Text ''hello there world'')" by simp
  have rec: "recorded False ?S ''u1'' MISTRAL ?m ''write a poem''
      (Text ''hello there world'') Map.empty"
    by (rule example_recorded)
  have per: "get_current_billing_period ?S ''u1'' = ''2026-11''"
    by (simp add: example_services_def)
  have old: "\<And>n. stored_calls Map.empty (''u1'', ''2026-11'') n = 0"
    "\<And>n. stored_tokens Map.empty (''u1'', ''2026-11'') n = 0"
    "\<And>n. stored_cost Map.empty (''u1'', ''2026-11'') n = 0"
    by (simp_all add: stored_calls_def stored_tokens_def stored_cost_def)
  have est: "estimated_total_tokens ''write a poem'' = 4003"
    by code_simp
  have sc: "fst (safety_check (token_limit_of (get_user_limits ?S ''u1'') ''mistral'') 0
      (estimate_tokens ''write a poem'' + estimate_tokens ''hello there world'')) = 6"
    by code_simp
  have cost: "snd (snd (snd (primary_values ?S ''u1'' MISTRAL ?m ''write a poem''
      (Text ''hello there world'') Map.empty))) = 6 / 1000"
    by (simp add: primary_values_def Let_def case_prod_beta example_services_def
        tracks_tokens_def sc[unfolded example_services_def, simplified]
        current_before_def safety_check_def example_limits_def token_limit_of_def)
       code_simp
  let ?T = "example_services ''google''
      (only_answers ''huggingface'' (Text ''hello there world'')) {}"
  have hf0: "stored_tokens (summaries (llm_text_gen ?T ''write a poem'' None (Some ''u1'')
      Map.empty)) (''u1'', ''2026-11'') ''huggingface'' = 0"
    by code_simp
  from huggingface_accounts_on_mistral[where S="?S" and m="?m" and uid="''u1''"
      and prompt="''write a poem''" and js=None and db=Map.empty
      and mapped="(MISTRAL, ''huggingface'')" and c="huggingface_text_response ?m"
      and r="Text ''hello there world''"] adm pc br tr rec
  have "events (llm_text_gen ?S ''write a poem'' None (Some ''u1'') Map.empty)
       = [QuotaCheck ''u1'' MISTRAL (estimated_total_tokens ''write a poem'') ''huggingface'',
          ProviderCall (huggingface_text_response ?m)]"
    and "stored_calls (summaries (llm_text_gen ?S ''write a poem'' None (Some ''u1'')
           Map.empty)) (''u1'', get_current_billing_period ?S ''u1'') ''huggingface''
         = stored_calls Map.empty (''u1'', get_current_billing_period ?S ''u1'')
             ''huggingface''"
    and "stored_calls (summaries (llm_text_gen ?S ''write a poem'' None (Some ''u1'')
           Map.empty)) (''u1'', get_current_billing_period ?S ''u1'') ''mistral''
         = stored_calls Map.empty (''u1'', get_current_billing_period ?S ''u1'') ''mistral'' + 1"
    and "stored_tokens (summaries (llm_text_gen ?S ''write a poem'' None (Some ''u1'')
           Map.empty)) (''u1'', get_current_billing_period ?S ''u1'') ''mistral''
         = fst (safety_check (token_limit_of (get_user_limits ?S ''u1'') ''mistral'')
                  (stored_tokens Map.empty (''u1'', get_current_billing_period ?S ''u1'')
                     ''mistral'')
                  (estimate_tokens ''write a poem''
                     + estimate_tokens (str_of (Text ''hello there world''))))"
    and "stored_cost (summaries (llm_text_gen ?S ''write a poem'' None (Some ''u1'')
           Map.empty)) (''u1'', get_current_billing_period ?S ''u1'') ''mistral''
         = stored_cost Map.empty (''u1'', get_current_billing_period ?S ''u1'') ''mistral''
           + max 0 (snd (snd (snd (primary_values ?S ''u1'' MISTRAL ?m ''write a poem''
                                     (Text ''hello there world'') Map.empty))))"
    by simp_all
  with sel hf0 show ?thesis
    by (simp add: per old est sc cost)
qed

end
